theory Spec2Isabelle
  imports Complex_Main
begin

section \<open>Python values shared by the tutorial scripts\<close>

text \<open>
  The scripts are Python. An exception that the interpreter raises in the code modelled
  here is a value of \<open>exn\<close>, and a function that can raise returns \<open>exn + 'a\<close>.
  Python floats are modelled as \<open>real\<close>, Python strings as \<open>string\<close> (one
  \<open>char\<close> for each character).
\<close>

datatype exn = IndexError | KeyError | ValueError

text \<open>
  What a call into the simulation library (or the terminal) raises, by the only
  distinction the handlers of the scripts make: an instance of \<open>Exception\<close>, with its
  text \<open>str(e)\<close>, is caught by \<^verbatim>\<open>except Exception\<close>; \<open>KeyboardInterrupt\<close> and
  \<open>SystemExit\<close> derive from \<open>BaseException\<close> only and pass through such a handler.
\<close>

datatype raised = Exception string | KeyboardInterrupt | SystemExit

fun is_Exception :: "raised \<Rightarrow> bool" where
  "is_Exception (Exception msg) = True"
| "is_Exception KeyboardInterrupt = False"
| "is_Exception SystemExit = False"

text \<open>The subscript \<^verbatim>\<open>xs[i]\<close> of a list, tuple or array: \<open>i\<close> from 0 up, or from
  \<open>-len(xs)\<close> up to -1 counting from the end; anything else raises IndexError.\<close>

definition py_getitem :: "'a list \<Rightarrow> int \<Rightarrow> exn + 'a" where
  "py_getitem xs i =
     (if 0 \<le> i \<and> i < int (length xs) then Inr (xs ! nat i)
      else if i < 0 \<and> - int (length xs) \<le> i then Inr (xs ! nat (int (length xs) + i))
      else Inl IndexError)"

section \<open>get_action_size (lesson_1_5, lesson_1_6, lesson_1_8: the same text in each)\<close>

text \<open>
  \<^verbatim>\<open>
  def get_action_size(env):
      if hasattr(env, 'action_size'):
          return env.action_size
      elif hasattr(env, 'action_space') and hasattr(env.action_space, 'shape'):
          return env.action_space.shape[0]
      else:
          return 23  # Default for G1 robot
  \<close>
  An attribute that an object may or may not have is an optional field.
\<close>

record space =
  shape :: "int list option"

record env =
  action_size :: "int option"
  action_space :: "space option"

definition get_action_size :: "env \<Rightarrow> exn + int" where
  "get_action_size e =
     (case action_size e of
        Some a \<Rightarrow> Inr a
      | None \<Rightarrow>
          (case action_space e of
             None \<Rightarrow> Inr 23
           | Some sp \<Rightarrow>
               (case shape sp of
                  None \<Rightarrow> Inr 23
                | Some sh \<Rightarrow> py_getitem sh 0)))"

section \<open>InteractiveController (lesson_1_5_interactive_control.py)\<close>

text \<open>
  \<^verbatim>\<open>
  def __init__(self, env):
      self.env = env
      self.action_size = get_action_size(env)
      self.current_action = np.zeros(self.action_size)
      self.control_mode = "individual"
      self.control_speed = 0.1
  \<close>
  \<open>np.zeros\<close> raises ValueError on a negative size. The field \<open>env\<close> is not
  read by \<open>update_action\<close> and is left out of the record.
\<close>

record controller =
  ic_action_size :: int
  current_action :: "real list"
  control_mode :: string
  control_speed :: real

definition np_zeros :: "int \<Rightarrow> exn + real list" where
  "np_zeros n = (if n < 0 then Inl ValueError else Inr (replicate (nat n) 0))"

definition InteractiveController_init :: "env \<Rightarrow> exn + controller" where
  "InteractiveController_init e =
     (case get_action_size e of
        Inl err \<Rightarrow> Inl err
      | Inr n \<Rightarrow>
          (case np_zeros n of
             Inl err \<Rightarrow> Inl err
           | Inr z \<Rightarrow>
               Inr \<lparr>ic_action_size = n, current_action = z,
                    control_mode = ''individual'', control_speed = 0.1\<rparr>))"

text \<open>
  One branch of \<open>update_action\<close> for a joint:
  \<^verbatim>\<open>self.current_action[i] = min(1.0, self.current_action[i] + speed)\<close> (sign \<open>+\<close>) or
  \<^verbatim>\<open>self.current_action[i] = max(-1.0, self.current_action[i] - speed)\<close> (sign \<open>-\<close>),
  followed by \<^verbatim>\<open>return True\<close>. Reading an index that the array does not have raises
  IndexError before anything is written.
\<close>

definition joint_up :: "controller \<Rightarrow> nat \<Rightarrow> controller \<times> (exn + bool)" where
  "joint_up c i =
     (case py_getitem (current_action c) (int i) of
        Inl err \<Rightarrow> (c, Inl err)
      | Inr x \<Rightarrow>
          (c\<lparr>current_action := (current_action c)[i := min 1.0 (x + control_speed c)]\<rparr>,
           Inr True))"

definition joint_down :: "controller \<Rightarrow> nat \<Rightarrow> controller \<times> (exn + bool)" where
  "joint_down c i =
     (case py_getitem (current_action c) (int i) of
        Inl err \<Rightarrow> (c, Inl err)
      | Inr x \<Rightarrow>
          (c\<lparr>current_action := (current_action c)[i := max (- 1.0) (x - control_speed c)]\<rparr>,
           Inr True))"

text \<open>
  \<open>update_action\<close> returns the controller after the call together with what the call
  returned or raised. The branches for \<open>r\<close>, \<open>f\<close>, \<open>t\<close>, \<open>g\<close> test the length first
  and, when the test fails, leave the \<open>if\<close>/\<open>elif\<close> chain and reach
  \<^verbatim>\<open>return False\<close>. The lines printed by \<open>+\<close>, \<open>-\<close>, \<open>0\<close> and \<open>h\<close> are not
  part of the state and are left out.
\<close>

definition update_action :: "controller \<Rightarrow> string \<Rightarrow> controller \<times> (exn + bool)" where
  "update_action c key =
     (if key = ''w'' then joint_up c 0
      else if key = ''s'' then joint_down c 0
      else if key = ''a'' then joint_up c 1
      else if key = ''d'' then joint_down c 1
      else if key = ''q'' then joint_up c 2
      else if key = ''e'' then joint_down c 2
      else if key = ''r'' then
        (if length (current_action c) > 3 then joint_up c 3 else (c, Inr False))
      else if key = ''f'' then
        (if length (current_action c) > 3 then joint_down c 3 else (c, Inr False))
      else if key = ''t'' then
        (if length (current_action c) > 4 then joint_up c 4 else (c, Inr False))
      else if key = ''g'' then
        (if length (current_action c) > 4 then joint_down c 4 else (c, Inr False))
      else if key = ''+'' then
        (c\<lparr>control_speed := min 0.5 (control_speed c + 0.02)\<rparr>, Inr True)
      else if key = ''-'' then
        (c\<lparr>control_speed := max 0.01 (control_speed c - 0.02)\<rparr>, Inr True)
      else if key = ''0'' then
        (c\<lparr>current_action := replicate (length (current_action c)) 0\<rparr>, Inr True)
      else if key = ''h'' then (c, Inr True)
      else (c, Inr False))"

text \<open>A sequence of calls on the same object; a caller that catches an exception of one
  call goes on with the object as that call left it.\<close>

fun update_actions :: "controller \<Rightarrow> string list \<Rightarrow> controller" where
  "update_actions c [] = c"
| "update_actions c (key # keys) = update_actions (fst (update_action c key)) keys"

definition action_in_range :: "controller \<Rightarrow> bool" where
  "action_in_range c = list_all (\<lambda>x. - 1.0 \<le> x \<and> x \<le> 1.0) (current_action c)"

definition speed_in_range :: "controller \<Rightarrow> bool" where
  "speed_in_range c = (0.01 \<le> control_speed c \<and> control_speed c \<le> 0.5)"

section \<open>SlowMotionViewer (lesson_1_9_slow_motion_viewer.py)\<close>

text \<open>
  \<^verbatim>\<open>
  def __init__(self, env, base_delay=0.033):
      self.env = env
      self.base_delay = base_delay
      self.speed_multipliers = {'ultra_slow': 10.0, 'very_slow': 5.0, 'slow': 2.0,
                                'normal': 1.0, 'fast': 0.5}
      self.current_speed = 'normal'
  \<close>
  The dictionary is an association list in insertion order, which is the order
  \<open>list(self.speed_multipliers.keys())\<close> prints.
\<close>

record viewer =
  base_delay :: real
  speed_multipliers :: "(string \<times> real) list"
  current_speed :: string

definition SlowMotionViewer_init :: "real \<Rightarrow> viewer" where
  "SlowMotionViewer_init bd =
     \<lparr>base_delay = bd,
      speed_multipliers =
        [(''ultra_slow'', 10.0), (''very_slow'', 5.0), (''slow'', 2.0),
         (''normal'', 1.0), (''fast'', 0.5)],
      current_speed = ''normal''\<rparr>"

text \<open>What \<open>set_speed\<close> prints: the accepted name with its multiplier, or the rejected
  name with the list of keys.\<close>

datatype speed_report = Speed_set string real | Unknown_speed string "string list"

text \<open>
  \<^verbatim>\<open>
  def set_speed(self, speed_name):
      if speed_name in self.speed_multipliers:
          self.current_speed = speed_name
          print(f"Speed set to: {speed_name} ({self.speed_multipliers[speed_name]:.1f}x)")
      else:
          print(f"Unknown speed: {speed_name}")
          print(f"Available speeds: {list(self.speed_multipliers.keys())}")
  \<close>
\<close>

definition set_speed :: "viewer \<Rightarrow> string \<Rightarrow> viewer \<times> speed_report" where
  "set_speed v speed_name =
     (case map_of (speed_multipliers v) speed_name of
        Some m \<Rightarrow> (v\<lparr>current_speed := speed_name\<rparr>, Speed_set speed_name m)
      | None \<Rightarrow> (v, Unknown_speed speed_name (map fst (speed_multipliers v))))"

text \<open>\<^verbatim>\<open>return self.base_delay * self.speed_multipliers[self.current_speed]\<close>; a key that
  the dictionary does not have raises KeyError.\<close>

definition get_current_delay :: "viewer \<Rightarrow> exn + real" where
  "get_current_delay v =
     (case map_of (speed_multipliers v) (current_speed v) of
        None \<Rightarrow> Inl KeyError
      | Some m \<Rightarrow> Inr (base_delay v * m))"

fun set_speeds :: "viewer \<Rightarrow> string list \<Rightarrow> viewer" where
  "set_speeds v [] = v"
| "set_speeds v (n # ns) = set_speeds (fst (set_speed v n)) ns"

section \<open>Unpacking the result of step (lesson_1_8_test_utilities.py)\<close>

text \<open>
  \<^verbatim>\<open>
  step_result = env.step(action)
  if len(step_result) == 5:
      next_state, reward, terminated, truncated, info = step_result
  elif len(step_result) == 4:
      next_state, reward, terminated, info = step_result
      truncated = False
  else:
      next_state, reward, terminated = step_result[:3]
      truncated = False
      info = {}
  \<close>
  The same lines stand five times in lesson_1_8_test_utilities.py and twice in
  lesson_1_6_motion_analysis.py. The entries of the tuple are Python values; an
  assignment to a tuple of names raises ValueError unless the right-hand side has
  exactly as many entries.
\<close>

datatype pyval =
  PyBool bool | PyFloat real | PyArray "real list" | PyDict "(string \<times> string) list"

record step_values =
  next_state :: pyval
  reward :: pyval
  terminated :: pyval
  truncated :: pyval
  info :: pyval

definition unpack_step_result :: "pyval list \<Rightarrow> exn + step_values" where
  "unpack_step_result step_result =
     (if length step_result = 5 then
        (case step_result of
           [s, r, te, tr, i] \<Rightarrow>
             Inr \<lparr>next_state = s, reward = r, terminated = te, truncated = tr, info = i\<rparr>
         | _ \<Rightarrow> Inl ValueError)
      else if length step_result = 4 then
        (case step_result of
           [s, r, te, i] \<Rightarrow>
             Inr \<lparr>next_state = s, reward = r, terminated = te,
                  truncated = PyBool False, info = i\<rparr>
         | _ \<Rightarrow> Inl ValueError)
      else
        (case take 3 step_result of
           [s, r, te] \<Rightarrow>
             Inr \<lparr>next_state = s, reward = r, terminated = te,
                  truncated = PyBool False, info = PyDict []\<rparr>
         | _ \<Rightarrow> Inl ValueError))"

section \<open>set_background_color (lesson_1_5_interactive_control.py)\<close>

text \<open>
  \<^verbatim>\<open>
  def set_background_color(color_name="black"):
      colors = {"black": "0 0 0", "dark_blue": "0.1 0.1 0.2", "dark_gray": "0.2 0.2 0.2",
                "white": "1 1 1", "default": "0.2 0.3 0.4"}
      bg_color = colors.get(color_name, colors["black"])
      os.environ['MUJOCO_GL_BACKGROUND'] = bg_color
      print(f"Background set to {color_name} ({bg_color})")
  \<close>
  \<open>os.environ\<close> is a map from names to values; the function returns the map after
  the assignment, with the value it printed.
\<close>

definition colors :: "(string \<times> string) list" where
  "colors =
     [(''black'', ''0 0 0''), (''dark_blue'', ''0.1 0.1 0.2''),
      (''dark_gray'', ''0.2 0.2 0.2''), (''white'', ''1 1 1''),
      (''default'', ''0.2 0.3 0.4'')]"

definition dict_getitem :: "('k \<times> 'v) list \<Rightarrow> 'k \<Rightarrow> exn + 'v" where
  "dict_getitem d k = (case map_of d k of None \<Rightarrow> Inl KeyError | Some v \<Rightarrow> Inr v)"

definition dict_get :: "('k \<times> 'v) list \<Rightarrow> 'k \<Rightarrow> 'v \<Rightarrow> 'v" where
  "dict_get d k dflt = (case map_of d k of None \<Rightarrow> dflt | Some v \<Rightarrow> v)"

definition set_background_color ::
  "(string \<rightharpoonup> string) \<Rightarrow> string \<Rightarrow> exn + ((string \<rightharpoonup> string) \<times> string)" where
  "set_background_color environ color_name =
     (case dict_getitem colors ''black'' of
        Inl err \<Rightarrow> Inl err
      | Inr black \<Rightarrow>
          (let bg_color = dict_get colors color_name black
           in Inr (environ(''MUJOCO_GL_BACKGROUND'' \<mapsto> bg_color), bg_color)))"

text \<open>
  The format the renderer reads from the variable, as the specification words it: an
  "R G B" string, three numbers separated by single blanks, each in the range 0 to 1.
  A number is a run of digits, optionally followed by a point and a run of digits.
\<close>

definition digit_value :: "char \<Rightarrow> nat option" where
  "digit_value c =
     map_of [(CHR ''0'', 0), (CHR ''1'', 1), (CHR ''2'', 2), (CHR ''3'', 3), (CHR ''4'', 4),
             (CHR ''5'', 5), (CHR ''6'', 6), (CHR ''7'', 7), (CHR ''8'', 8), (CHR ''9'', 9)] c"

fun digits_value :: "nat \<Rightarrow> string \<Rightarrow> nat option" where
  "digits_value acc [] = Some acc"
| "digits_value acc (c # cs) =
     (case digit_value c of None \<Rightarrow> None | Some d \<Rightarrow> digits_value (10 * acc + d) cs)"

definition number_value :: "string \<Rightarrow> real option" where
  "number_value s =
     (let whole = takeWhile (\<lambda>c. c \<noteq> CHR ''.'') s;
          rest = dropWhile (\<lambda>c. c \<noteq> CHR ''.'') s
      in if whole = [] then None
         else case digits_value 0 whole of
           None \<Rightarrow> None
         | Some n \<Rightarrow>
             (case rest of
                [] \<Rightarrow> Some (real n)
              | _ # decimals \<Rightarrow>
                  (if decimals = [] then None
                   else case digits_value 0 decimals of
                     None \<Rightarrow> None
                   | Some f \<Rightarrow> Some (real n + real f / 10 ^ length decimals))))"

fun split_blank :: "string \<Rightarrow> string list" where
  "split_blank [] = [[]]"
| "split_blank (c # cs) =
     (if c = CHR '' '' then [] # split_blank cs
      else (case split_blank cs of w # ws \<Rightarrow> (c # w) # ws | [] \<Rightarrow> [[c]]))"

definition rgb_in_unit_range :: "string \<Rightarrow> bool" where
  "rgb_in_unit_range s =
     (case map number_value (split_blank s) of
        [Some r, Some g, Some b] \<Rightarrow> 0 \<le> r \<and> r \<le> 1 \<and> 0 \<le> g \<and> g \<le> 1 \<and> 0 \<le> b \<and> b \<le> 1
      | _ \<Rightarrow> False)"

section \<open>Reporting a failed recording (archive/g1_extended_dataset_recorder.py, archive/g1_dance_recorder.py)\<close>

text \<open>
  Both functions are a \<open>try\<close> whose body is calls into the library and the file
  system, and a handler. The body is a parameter of the model: what it did, either
  \<open>Raises\<close> or \<open>Returns\<close> with the value of its \<open>return\<close> statement. The lines the
  body prints on its way are not modelled; the lines of the handler are, each one as
  the text that the handler puts between the fixed words of its format string.
\<close>

datatype 'a body = Raises raised | Returns 'a

text \<open>The test \<^verbatim>\<open>sub in s\<close> of two strings: \<open>sub\<close> occurs in \<open>s\<close> as a run of
  adjacent characters.\<close>

fun starts_with :: "string \<Rightarrow> string \<Rightarrow> bool" where
  "starts_with [] s = True"
| "starts_with (a # sub) [] = False"
| "starts_with (a # sub) (c # s) = (a = c \<and> starts_with sub s)"

fun str_contains :: "string \<Rightarrow> string \<Rightarrow> bool" where
  "str_contains sub [] = (sub = [])"
| "str_contains sub (c # s) = (starts_with sub (c # s) \<or> str_contains sub s)"

text \<open>
  g1_extended_dataset_recorder.py, \<open>test_and_record_dataset\<close>:
  \<^verbatim>\<open>
  except Exception as e:
      error_msg = str(e)
      if "404" in error_msg or "Entry Not Found" in error_msg:
          print(" Not available")
      else:
          print(f" Error: {error_msg[:50]}...")
      return False, None
  \<close>
  \<open>Error_shown t\<close> is the line \<^verbatim>\<open>Error: t...\<close>.
\<close>

datatype extended_line = Not_available | Error_shown string

definition test_and_record_dataset ::
  "(bool \<times> 'i option) body \<Rightarrow> raised + (extended_line list \<times> bool \<times> 'i option)" where
  "test_and_record_dataset b =
     (case b of
        Returns r \<Rightarrow> Inr ([], r)
      | Raises (Exception error_msg) \<Rightarrow>
          Inr ([if str_contains ''404'' error_msg \<or> str_contains ''Entry Not Found'' error_msg
                then Not_available
                else Error_shown (take 50 error_msg)],
               False, None)
      | Raises KeyboardInterrupt \<Rightarrow> Inl KeyboardInterrupt
      | Raises SystemExit \<Rightarrow> Inl SystemExit)"

text \<open>
  g1_dance_recorder.py, \<open>record_dance_dataset\<close>:
  \<^verbatim>\<open>
  except Exception as e:
      print(f"   Recording failed: {str(e)[:100]}...")
      return None
  finally:
      if 'env' in locals():
          del env
  \<close>
  \<open>Recording_failed t\<close> is the line \<^verbatim>\<open>Recording failed: t...\<close>. The \<open>finally\<close>
  clause drops a local name and changes neither the lines nor the result.
\<close>

datatype dance_line = Recording_failed string

definition record_dance_dataset ::
  "string option body \<Rightarrow> raised + (dance_line list \<times> string option)" where
  "record_dance_dataset b =
     (case b of
        Returns r \<Rightarrow> Inr ([], r)
      | Raises (Exception msg) \<Rightarrow> Inr ([Recording_failed (take 100 msg)], None)
      | Raises KeyboardInterrupt \<Rightarrow> Inl KeyboardInterrupt
      | Raises SystemExit \<Rightarrow> Inl SystemExit)"

section \<open>Scripts as sequences of calls into the library\<close>

text \<open>
  The tutorial scripts print, and call the simulation library and the clock. Those
  calls are the only statements of the scripts modelled below that can raise. A
  \<open>call\<close> names one of them with its arguments:
  \<^item> \<open>Make names n_substeps\<close>:
    \<^verbatim>\<open>ImitationFactory.make("UnitreeG1", default_dataset_conf=DefaultDatasetConf(names))\<close>,
    with \<^verbatim>\<open>n_substeps=k\<close> when the second argument is \<open>Some k\<close>;
  \<^item> \<open>Action_space_shape\<close>, \<open>Observation_space_shape\<close>: reading
    \<^verbatim>\<open>env.info.action_space.shape\<close> and \<^verbatim>\<open>env.info.observation_space.shape\<close>;
  \<^item> \<open>Create_dataset\<close>: \<^verbatim>\<open>env.create_dataset()\<close>;
  \<^item> \<open>Play_trajectory e n render\<close>:
    \<^verbatim>\<open>env.play_trajectory(n_episodes=e, n_steps_per_episode=n, render=render)\<close>;
  \<^item> \<open>Sleep s\<close>: \<^verbatim>\<open>time.sleep(s)\<close>.

  What the library does is not in the repository. It is a parameter, the \<open>world\<close>:
  given the calls made so far, the last of them being the call in progress, it says
  whether that call raises, and what.
\<close>

datatype call =
  Make "string list" "nat option"
  | Action_space_shape
  | Observation_space_shape
  | Create_dataset
  | Play_trajectory nat nat bool
  | Sleep nat

type_synonym world = "call list \<Rightarrow> raised option"

text \<open>
  The lines that report an outcome, each with the values its format string shows:
  \<^item> \<open>Error_line e\<close>: \<^verbatim>\<open>Error: {e}\<close> (g1_01_basic_datasets.py);
  \<^item> \<open>Fallback_successful\<close>, \<open>Fallback_failed e2\<close>: \<^verbatim>\<open>Fallback successful!\<close> and
    \<^verbatim>\<open>Fallback also failed: {e2}\<close> (g1_01_basic_datasets.py);
  \<^item> \<open>Demonstration_complete name\<close>, \<open>Failed_to_demonstrate name e\<close>:
    \<^verbatim>\<open>{motion_name.title()} demonstration complete!\<close> and
    \<^verbatim>\<open>Failed to demonstrate {motion_name}: {e}\<close> (lesson_1_3_basic_datasets.py);
  \<^item> \<open>Successfully_demonstrated k n\<close>:
    \<^verbatim>\<open>Successfully demonstrated: {successful_demos}/{len(motion_list)} motions\<close>
    (lesson_1_3_basic_datasets.py).

  The other lines of the scripts are fixed narration and are left out.
\<close>

datatype line =
  Error_line string
  | Fallback_successful
  | Fallback_failed string
  | Demonstration_complete string
  | Failed_to_demonstrate string string
  | Successfully_demonstrated nat nat

text \<open>What a run has done so far: the calls it made and the lines it printed, in
  order. A script takes the world and the run so far, and gives the run after it and
  either the exception that left it or its value.\<close>

record run =
  calls :: "call list"
  printed :: "line list"

type_synonym 'a script = "world \<Rightarrow> run \<Rightarrow> run \<times> (raised + 'a)"

definition ext_call :: "call \<Rightarrow> unit script" where
  "ext_call c w r =
     (let cs = calls r @ [c]
      in (r\<lparr>calls := cs\<rparr>, case w cs of None \<Rightarrow> Inr () | Some e \<Rightarrow> Inl e))"

definition say :: "line \<Rightarrow> unit script" where
  "say l w r = (r\<lparr>printed := printed r @ [l]\<rparr>, Inr ())"

text \<open>Statements one after the other: the first that raises ends the sequence.\<close>

fun in_order :: "unit script list \<Rightarrow> unit script" where
  "in_order [] w r = (r, Inr ())"
| "in_order (p # ps) w r =
     (case p w r of
        (r', Inl e) \<Rightarrow> (r', Inl e)
      | (r', Inr u) \<Rightarrow> in_order ps w r')"

text \<open>\<^verbatim>\<open>try: body / except Exception as e: handler\<close>. The handler runs when the body
  raises an instance of \<open>Exception\<close>, and gets its text; anything else the body raises
  leaves the statement.\<close>

definition try_except_Exception :: "'a script \<Rightarrow> (string \<Rightarrow> 'a script) \<Rightarrow> 'a script" where
  "try_except_Exception body handler w r =
     (case body w r of
        (r', Inr x) \<Rightarrow> (r', Inr x)
      | (r', Inl e) \<Rightarrow>
          (case e of
             Exception msg \<Rightarrow> handler msg w r'
           | KeyboardInterrupt \<Rightarrow> (r', Inl e)
           | SystemExit \<Rightarrow> (r', Inl e)))"

section \<open>main of archive/g1_01_basic_datasets.py\<close>

text \<open>
  \<^verbatim>\<open>
  try:
      env = ImitationFactory.make("UnitreeG1",
                default_dataset_conf=DefaultDatasetConf(["walk", "squat"]), n_substeps=20)
      print(f"Action space: {env.info.action_space.shape}")
      print(f"Observation space: {env.info.observation_space.shape}")
      dataset = env.create_dataset()
      datasets_to_demo = ["walk", "squat"]
      for i, dataset_name in enumerate(datasets_to_demo):
          single_env = ImitationFactory.make("UnitreeG1",
                default_dataset_conf=DefaultDatasetConf([dataset_name]), n_substeps=20)
          single_env.play_trajectory(n_episodes=3, n_steps_per_episode=1000, render=True)
          if i < len(datasets_to_demo) - 1:
              import time
              time.sleep(2)
  except Exception as e:
      print(f"Error: {e}")
      try:
          env = ImitationFactory.make("UnitreeG1",
                default_dataset_conf=DefaultDatasetConf(["walk"]))
          env.play_trajectory(n_episodes=2, n_steps_per_episode=500, render=True)
          print("Fallback successful!")
      except Exception as e2:
          print(f"Fallback also failed: {e2}")
  \<close>
\<close>

definition datasets_to_demo :: "string list" where
  "datasets_to_demo = [''walk'', ''squat'']"

definition g1_01_demo :: "nat \<times> string \<Rightarrow> unit script" where
  "g1_01_demo = (\<lambda>(i, dataset_name).
     in_order
       ([ext_call (Make [dataset_name] (Some 20)),
         ext_call (Play_trajectory 3 1000 True)] @
        (if i < length datasets_to_demo - 1 then [ext_call (Sleep 2)] else [])))"

definition g1_01_try_body :: "unit script" where
  "g1_01_try_body =
     in_order
       ([ext_call (Make [''walk'', ''squat''] (Some 20)),
         ext_call Action_space_shape,
         ext_call Observation_space_shape,
         ext_call Create_dataset] @
        map g1_01_demo (enumerate 0 datasets_to_demo))"

definition g1_01_fallback :: "unit script" where
  "g1_01_fallback =
     try_except_Exception
       (in_order
          [ext_call (Make [''walk''] None),
           ext_call (Play_trajectory 2 500 True),
           say Fallback_successful])
       (\<lambda>e2. say (Fallback_failed e2))"

definition g1_01_main :: "unit script" where
  "g1_01_main =
     try_except_Exception g1_01_try_body
       (\<lambda>e. in_order [say (Error_line e), g1_01_fallback])"

section \<open>demonstrate_motion and main of lesson_1_3_basic_datasets.py\<close>

text \<open>
  \<^verbatim>\<open>
  def demonstrate_motion(motion_name, duration=15):
      try:
          env = ImitationFactory.make("UnitreeG1",
                    default_dataset_conf=DefaultDatasetConf([motion_name]), n_substeps=20)
          steps_per_episode = duration * 30
          env.play_trajectory(n_episodes=1, n_steps_per_episode=steps_per_episode,
                              render=True)
          print(f"{motion_name.title()} demonstration complete!")
          del env
          return True
      except Exception as e:
          print(f"Failed to demonstrate {motion_name}: {e}")
          return False
  \<close>
\<close>

definition demonstrate_motion :: "string \<Rightarrow> nat \<Rightarrow> bool script" where
  "demonstrate_motion motion_name duration =
     try_except_Exception
       (\<lambda>w r.
          case in_order
                 [ext_call (Make [motion_name] (Some 20)),
                  ext_call (Play_trajectory 1 (duration * 30) True),
                  say (Demonstration_complete motion_name)] w r of
            (r', Inl e) \<Rightarrow> (r', Inl e)
          | (r', Inr u) \<Rightarrow> (r', Inr True))
       (\<lambda>e w r. (fst (say (Failed_to_demonstrate motion_name e) w r), Inr False))"

text \<open>\<open>available_basic_motions\<close> prints its table and returns the names of its four
  entries.\<close>

definition available_basic_motions :: "string list" where
  "available_basic_motions = [''walk'', ''run'', ''squat'', ''balance'']"

text \<open>
  \<^verbatim>\<open>
  successful_demos = 0
  for i, motion in enumerate(motion_list, 1):
      if demonstrate_motion(motion, duration=12):
          successful_demos += 1
      if i < len(motion_list):
          time.sleep(2)
  \<close>
  The loop is a recursion over the pairs that \<open>enumerate\<close> still has to give, with
  the counter as it stands.
\<close>

fun demonstrations :: "nat \<Rightarrow> (nat \<times> string) list \<Rightarrow> nat \<Rightarrow> nat script" where
  "demonstrations n [] successful_demos w r = (r, Inr successful_demos)"
| "demonstrations n ((i, motion) # rest) successful_demos w r =
     (case demonstrate_motion motion 12 w r of
        (r1, Inl e) \<Rightarrow> (r1, Inl e)
      | (r1, Inr ok) \<Rightarrow>
          (let successful_demos' = (if ok then successful_demos + 1 else successful_demos)
           in if i < n then
                (case ext_call (Sleep 2) w r1 of
                   (r2, Inl e) \<Rightarrow> (r2, Inl e)
                 | (r2, Inr u) \<Rightarrow> demonstrations n rest successful_demos' w r2)
              else demonstrations n rest successful_demos' w r1))"

definition lesson_1_3_main :: "unit script" where
  "lesson_1_3_main w r =
     (let motion_list = available_basic_motions
      in case demonstrations (length motion_list) (enumerate 1 motion_list) 0 w r of
           (r', Inl e) \<Rightarrow> (r', Inl e)
         | (r', Inr successful_demos) \<Rightarrow>
             say (Successfully_demonstrated successful_demos (length motion_list)) w r')"

section \<open>The scripts as files: top-level statements\<close>

text \<open>
  What running a file does is decided by its top-level statements. A file is the list of
  them, in order:
  \<^item> \<open>Docstring\<close>; \<open>Import m\<close> for \<^verbatim>\<open>import m\<close> and \<^verbatim>\<open>from m import ...\<close>;
    \<open>Assign x\<close> for \<^verbatim>\<open>x = constant\<close>; \<open>Print\<close> for a call of \<open>print\<close>;
  \<^item> \<open>Def f ms ins\<close> and \<open>Class c ms ins\<close> for \<^verbatim>\<open>def f(...)\<close> and \<^verbatim>\<open>class c\<close>, with
    the modules \<open>ms\<close> that import statements inside the body name and the calls
    \<open>ins\<close> of \<open>input\<close> inside the body, in the order of the text;
  \<^item> \<open>Call f\<close> for \<^verbatim>\<open>f()\<close> and \<open>Assign_call x f\<close> for \<^verbatim>\<open>x = f()\<close>;
  \<^item> \<open>If_var x a b\<close> for \<^verbatim>\<open>if x: a else: b\<close>, \<open>If_not_var x a\<close> for \<^verbatim>\<open>if not x: a\<close>;
  \<^item> \<open>Try_except_ImportError a b\<close> for \<^verbatim>\<open>try: a except ImportError: b\<close>;
  \<^item> \<open>If_name_main a\<close> for \<^verbatim>\<open>if __name__ == "__main__": a\<close>.

  A call of \<open>input\<close> is \<open>Input prompt normalised use\<close>: the prompt (its ASCII
  characters; a field of an f-string in braces), whether \<^verbatim>\<open>.strip().lower()\<close> is applied
  to what was typed, and what the code does with it:
  \<^item> \<open>Discarded\<close>: nothing, the call only waits for Enter;
  \<^item> \<open>Member_of options\<close>: the test \<^verbatim>\<open>response in options\<close> decides whether to go on;
  \<^item> \<open>Equal_to s\<close>: the test \<^verbatim>\<open>proceed != s\<close> decides not to go on;
  \<^item> \<open>Dispatched\<close>: it is a command or a menu choice, compared with several texts.
\<close>

datatype use = Discarded | Member_of "string list" | Equal_to string | Dispatched

datatype input_call = Input string bool use

datatype stmt =
  Docstring
  | Import string
  | Assign string
  | Print
  | Def string "string list" "input_call list"
  | Class string "string list" "input_call list"
  | Call string
  | Assign_call string string
  | If_var string "stmt list" "stmt list"
  | If_not_var string "stmt list"
  | Try_except_ImportError "stmt list" "stmt list"
  | If_name_main "stmt list"

text \<open>examples/g1_tutorials/archive/debug_test.py\<close>

definition debug_test_py :: "stmt list" where
  "debug_test_py =
     [Docstring, Import ''jax'', Import ''numpy'', Import ''loco_mujoco.task_factories'',
      Import ''time'', Def ''test_basic_rl_environment'' [''traceback''] [],
      If_name_main [Call ''test_basic_rl_environment'']]"

text \<open>examples/g1_tutorials/archive/g1_01_basic_datasets.py\<close>

definition g1_01_basic_datasets_py :: "stmt list" where
  "g1_01_basic_datasets_py =
     [Docstring, Import ''numpy'', Import ''loco_mujoco.task_factories'',
      Def ''main'' [''time''] [], If_name_main [Call ''main'']]"

text \<open>examples/g1_tutorials/archive/g1_01_record_datasets.py\<close>

definition g1_01_record_datasets_py :: "stmt list" where
  "g1_01_record_datasets_py =
     [Docstring, Import ''numpy'', Import ''loco_mujoco.task_factories'', Import ''os'',
      Def ''main'' [] [], If_name_main [Call ''main'']]"

text \<open>examples/g1_tutorials/archive/g1_02_lafan1_datasets.py\<close>

definition g1_02_lafan1_datasets_py :: "stmt list" where
  "g1_02_lafan1_datasets_py =
     [Docstring, Import ''numpy'', Import ''loco_mujoco.task_factories'',
      Def ''main'' [''time''] [], If_name_main [Call ''main'']]"

text \<open>examples/g1_tutorials/archive/g1_03_interactive_control.py\<close>

definition g1_03_interactive_control_py :: "stmt list" where
  "g1_03_interactive_control_py =
     [Docstring, Import ''numpy'', Import ''time'', Import ''loco_mujoco.task_factories'',
      Def ''main'' [''traceback''] [], If_name_main [Call ''main'']]"

text \<open>examples/g1_tutorials/archive/g1_04_numerical_analysis.py\<close>

definition g1_04_numerical_analysis_py :: "stmt list" where
  "g1_04_numerical_analysis_py =
     [Docstring, Import ''numpy'', Import ''loco_mujoco.task_factories'', Import ''time'',
      Def ''analyze_g1_joint_data'' [] [], Def ''analyze_numerical_patterns'' [] [],
      Def ''compare_dataset_patterns'' [] [], Def ''main'' [] [],
      If_name_main [Call ''main'']]"

text \<open>examples/g1_tutorials/archive/g1_04_simple_analysis.py\<close>

definition g1_04_simple_analysis_py :: "stmt list" where
  "g1_04_simple_analysis_py =
     [Docstring, Import ''numpy'', Import ''loco_mujoco.task_factories'',
      Def ''analyze_motion_patterns'' [] [], Def ''main'' [''time''] [],
      If_name_main [Call ''main'']]"

text \<open>examples/g1_tutorials/archive/g1_04_trajectory_generation.py\<close>

definition g1_04_trajectory_generation_py :: "stmt list" where
  "g1_04_trajectory_generation_py =
     [Docstring, Import ''numpy'', Import ''matplotlib.pyplot'',
      Import ''loco_mujoco.task_factories'', Import ''time'',
      Def ''generate_g1_standing_trajectory'' [] [], Def ''generate_g1_walking_pattern'' [] [],
      Def ''analyze_trajectory'' [] [], Def ''main'' [''traceback''] [],
      If_name_main [Call ''main'']]"

text \<open>examples/g1_tutorials/archive/g1_05_visual_analysis.py\<close>

definition g1_05_visual_analysis_py :: "stmt list" where
  "g1_05_visual_analysis_py =
     [Docstring, Import ''numpy'', Import ''loco_mujoco.task_factories'', Import ''time'',
      Import ''os'',
      Try_except_ImportError [Import ''matplotlib.pyplot'', Import ''matplotlib.patches'',
          Assign ''HAS_MATPLOTLIB'', Print] [Assign ''HAS_MATPLOTLIB'', Print],
      Def ''create_text_plot'' [] [], Def ''analyze_and_visualize_dataset'' [] [],
      Def ''create_visualizations'' [] [], Def ''compare_visual_patterns'' [] [],
      Def ''main'' [] [], If_name_main [Call ''main'']]"

text \<open>examples/g1_tutorials/archive/g1_complete_dataset_recorder.py\<close>

definition g1_complete_dataset_recorder_py :: "stmt list" where
  "g1_complete_dataset_recorder_py =
     [Docstring, Import ''os'', Import ''time'', Import ''numpy'',
      Import ''loco_mujoco.task_factories'', Import ''datetime'', Import ''json'',
      Class ''G1DatasetRecorder'' [] [], Def ''main'' [] [], If_name_main [Call ''main'']]"

text \<open>examples/g1_tutorials/archive/g1_comprehensive_dataset_explorer.py\<close>

definition g1_comprehensive_dataset_explorer_py :: "stmt list" where
  "g1_comprehensive_dataset_explorer_py =
     [Docstring, Import ''os'', Import ''time'', Import ''datetime'',
      Import ''loco_mujoco.task_factories'', Def ''explore_default_datasets'' [] [],
      Def ''explore_lafan1_datasets'' [] [], Def ''explore_lafan1_groups'' [] [],
      Def ''show_amass_info'' [] [], Def ''record_available_dataset'' [] [],
      Def ''main'' [] [Input ''   Record videos? (y/N): '' True (Member_of [''y'', ''yes''])],
      If_name_main [Call ''main'']]"

text \<open>examples/g1_tutorials/archive/g1_dance_recorder.py\<close>

definition g1_dance_recorder_py :: "stmt list" where
  "g1_dance_recorder_py =
     [Docstring, Import ''os'', Import ''glob'', Import ''datetime'',
      Import ''loco_mujoco.task_factories'', Def ''record_dance_dataset'' [''shutil''] [],
      Def ''main'' [] [], If_name_main [Call ''main'']]"

text \<open>examples/g1_tutorials/archive/g1_dance_recorder_fixed.py\<close>

definition g1_dance_recorder_fixed_py :: "stmt list" where
  "g1_dance_recorder_fixed_py =
     [Docstring, Import ''os'', Import ''time'', Import ''glob'', Import ''datetime'',
      Import ''loco_mujoco.task_factories'', Def ''record_dance_video'' [''shutil''] [],
      Def ''main'' [] [], If_name_main [Call ''main'']]"

text \<open>examples/g1_tutorials/archive/g1_dance_video_recorder.py\<close>

definition g1_dance_video_recorder_py :: "stmt list" where
  "g1_dance_video_recorder_py =
     [Docstring, Import ''os'', Import ''time'', Import ''glob'',
      Import ''loco_mujoco.task_factories'', Def ''record_dance_dataset'' [''shutil''] [],
      Def ''main'' [] [], If_name_main [Call ''main'']]"

text \<open>examples/g1_tutorials/archive/g1_dataset_explorer.py\<close>

definition g1_dataset_explorer_py :: "stmt list" where
  "g1_dataset_explorer_py =
     [Docstring, Import ''os'', Import ''pathlib'', Def ''find_dataset_locations'' [] [],
      Def ''list_available_datasets'' [] [],
      Def ''test_dataset_import'' [''loco_mujoco.task_factories''] [], Def ''main'' [] [],
      If_name_main [Call ''main'']]"

text \<open>examples/g1_tutorials/archive/g1_dataset_guide.py\<close>

definition g1_dataset_guide_py :: "stmt list" where
  "g1_dataset_guide_py =
     [Docstring, Import ''loco_mujoco.task_factories'',
      Def ''test_dataset_availability'' [] [], Def ''main'' [] [],
      If_name_main [Call ''main'']]"

text \<open>examples/g1_tutorials/archive/g1_extended_dataset_recorder.py\<close>

definition g1_extended_dataset_recorder_py :: "stmt list" where
  "g1_extended_dataset_recorder_py =
     [Docstring, Import ''os'', Import ''time'', Import ''loco_mujoco.task_factories'',
      Def ''test_and_record_dataset'' [''glob''] [], Def ''main'' [] [],
      If_name_main [Call ''main'']]"

text \<open>examples/g1_tutorials/archive/g1_lafan1_demo.py\<close>

definition g1_lafan1_demo_py :: "stmt list" where
  "g1_lafan1_demo_py =
     [Docstring, Import ''loco_mujoco.task_factories'',
      Def ''demo_individual_lafan1_datasets'' [] [], Def ''demo_lafan1_groups'' [] [],
      Def ''demo_mixed_datasets'' [] [], Def ''record_lafan1_examples'' [] [],
      Def ''main'' [] [Input ''Record example LAFAN1 videos? (y/N): '' True (Member_of [''y'',
          ''yes''])],
      If_name_main [Call ''main'']]"

text \<open>examples/g1_tutorials/archive/g1_quick_test.py\<close>

definition g1_quick_test_py :: "stmt list" where
  "g1_quick_test_py =
     [Docstring, Import ''numpy'', Import ''loco_mujoco.task_factories'',
      Def ''main'' [''traceback''] [], If_name_main [Call ''main'']]"

text \<open>examples/g1_tutorials/archive/g1_simple_recorder.py\<close>

definition g1_simple_recorder_py :: "stmt list" where
  "g1_simple_recorder_py =
     [Docstring, Import ''os'', Import ''time'', Import ''loco_mujoco.task_factories'',
      Def ''record_dataset_video'' [''glob''] [], Def ''main'' [] [],
      If_name_main [Call ''main'']]"

text \<open>examples/g1_tutorials/archive/g1_simple_walk_test.py\<close>

definition g1_simple_walk_test_py :: "stmt list" where
  "g1_simple_walk_test_py =
     [Docstring, Import ''numpy'', Import ''time'', Import ''loco_mujoco.task_factories'',
      Def ''main'' [''traceback''] [], If_name_main [Call ''main'']]"

text \<open>examples/g1_tutorials/archive/g1_slow_motion_viewer.py\<close>

definition g1_slow_motion_viewer_py :: "stmt list" where
  "g1_slow_motion_viewer_py =
     [Docstring, Import ''numpy'', Import ''time'', Import ''loco_mujoco.task_factories'',
      Def ''show_dataset_menu'' [] [], Def ''play_single_motion'' [] [],
      Def ''main'' [] [Input ''Enter choice (1-{n}) or 'q' to quit: '' True (Dispatched),
          Input ''Continue? (y/n): '' True (Equal_to ''y'')],
      If_name_main [Call ''main'']]"

text \<open>examples/g1_tutorials/archive/test_dance_recording.py\<close>

definition test_dance_recording_py :: "stmt list" where
  "test_dance_recording_py =
     [Docstring, Import ''os'', Import ''time'', Import ''glob'',
      Import ''loco_mujoco.task_factories'', Def ''test_single_dance'' [] [],
      If_name_main [Call ''test_single_dance'']]"

text \<open>examples/g1_tutorials/archive/test_dataset_availability.py\<close>

definition test_dataset_availability_py :: "stmt list" where
  "test_dataset_availability_py =
     [Docstring, Import ''loco_mujoco.task_factories'', Def ''test_dataset'' [] [],
      Def ''main'' [] [], If_name_main [Call ''main'']]"

text \<open>examples/g1_tutorials/archive/test_mujoco_viewer.py\<close>

definition test_mujoco_viewer_py :: "stmt list" where
  "test_mujoco_viewer_py =
     [Docstring, Import ''mujoco'', Import ''mujoco.viewer'', Import ''numpy'',
      Import ''time'', Def ''test_mujoco_viewer'' [] [], Def ''main'' [] [],
      If_name_main [Call ''main'']]"

text \<open>examples/g1_tutorials/archive/tutorial_01_your_first_robot.py\<close>

definition tutorial_01_your_first_robot_py :: "stmt list" where
  "tutorial_01_your_first_robot_py =
     [Docstring, Import ''jax'', Import ''numpy'', Import ''loco_mujoco.task_factories'',
      Import ''time'', Def ''explain_concept'' [] [], Def ''main'' [] [],
      If_name_main [Call ''main'']]"

text \<open>examples/g1_tutorials/archive/tutorial_02_interactive_control.py\<close>

definition tutorial_02_interactive_control_py :: "stmt list" where
  "tutorial_02_interactive_control_py =
     [Docstring, Import ''jax'', Import ''numpy'', Import ''loco_mujoco.task_factories'',
      Import ''time'', Import ''matplotlib.pyplot'', Def ''explain_concept'' [] [],
      Def ''create_simple_controller'' [] [], Def ''analyze_robot_state'' [] [],
      Def ''main'' [] [], If_name_main [Call ''main'']]"

text \<open>examples/g1_tutorials/archive/tutorial_02_interactive_control_fixed.py\<close>

definition tutorial_02_interactive_control_fixed_py :: "stmt list" where
  "tutorial_02_interactive_control_fixed_py =
     [Docstring, Import ''jax'', Import ''numpy'', Import ''loco_mujoco.task_factories'',
      Import ''time'', Def ''explain_concept'' [] [], Def ''create_simple_controller'' [] [],
      Def ''analyze_robot_state'' [] [], Def ''main'' [] [], If_name_main [Call ''main'']]"

text \<open>examples/g1_tutorials/archive/tutorial_02_interactive_simple.py\<close>

definition tutorial_02_interactive_simple_py :: "stmt list" where
  "tutorial_02_interactive_simple_py =
     [Docstring, Import ''jax'', Import ''numpy'', Import ''loco_mujoco.task_factories'',
      Import ''time'', Def ''explain_concept'' [] [], Def ''main'' [] [],
      If_name_main [Call ''main'']]"

text \<open>examples/g1_tutorials/archive/tutorial_03_data_analysis.py\<close>

definition tutorial_03_data_analysis_py :: "stmt list" where
  "tutorial_03_data_analysis_py =
     [Docstring, Import ''jax'', Import ''numpy'', Import ''loco_mujoco.task_factories'',
      Import ''time'',
      Try_except_ImportError [Import ''matplotlib.pyplot'', Import ''matplotlib.patches'',
          Import ''matplotlib.animation'', Assign ''HAS_MATPLOTLIB'', Print]
          [Assign ''HAS_MATPLOTLIB'', Print],
      Def ''explain_concept'' [] [], Def ''create_ascii_plot'' [] [],
      Def ''analyze_motion_data'' [] [], Def ''create_visualizations'' [] [],
      Def ''main'' [] [], If_name_main [Call ''main'']]"

text \<open>examples/g1_tutorials/archive/tutorial_04_reinforcement_learning.py\<close>

definition tutorial_04_reinforcement_learning_py :: "stmt list" where
  "tutorial_04_reinforcement_learning_py =
     [Docstring, Import ''os'', Import ''time'', Import ''numpy'', Import ''jax'',
      Import ''jax.numpy'', Import ''loco_mujoco.task_factories'',
      Def ''explain_reinforcement_learning'' [] [], Def ''demonstrate_reward_system'' [] [],
      Def ''simulate_learning_process'' [] [], Def ''demonstrate_real_training_setup'' [] [],
      Def ''compare_learning_approaches'' [] [],
      Def ''demonstrate_with_imitation_baseline'' [] [], Def ''main'' [] [],
      If_name_main [Call ''main'']]"

text \<open>examples/g1_tutorials/background_color_guide.py\<close>

definition background_color_guide_py :: "stmt list" where
  "background_color_guide_py =
     [Docstring, Import ''numpy'', Import ''loco_mujoco.task_factories'', Import ''jax'',
      Import ''os'', Def ''method_1_environment_variable'' [] [],
      Def ''method_2_render_options'' [''time''] [], Def ''method_3_xml_modification'' [] [],
      Def ''method_4_direct_mujoco'' [''mujoco''] [],
      Def ''create_black_background_example'' [] [], Def ''main'' [] [],
      If_name_main [Call ''main'']]"

text \<open>examples/g1_tutorials/lesson_1_10_complete_summary.py\<close>

definition lesson_1_10_complete_summary_py :: "stmt list" where
  "lesson_1_10_complete_summary_py =
     [Docstring, Import ''time'', Import ''loco_mujoco.task_factories'',
      Def ''welcome_to_graduation'' [] [], Def ''unit_1_review'' [] [],
      Def ''knowledge_integration'' [] [], Def ''demonstrate_your_skills'' [] [],
      Def ''learning_achievements'' [] [], Def ''unit_2_preview'' [] [],
      Def ''next_steps_guidance'' [] [], Def ''final_encouragement'' [] [],
      Def ''graduation_ceremony'' [''numpy''] [], Def ''main'' [] [],
      If_name_main [Call ''main'']]"

text \<open>examples/g1_tutorials/lesson_1_1_quick_test.py\<close>

definition lesson_1_1_quick_test_py :: "stmt list" where
  "lesson_1_1_quick_test_py =
     [Docstring, Import ''numpy'', Import ''loco_mujoco.task_factories'', Import ''jax'',
      Import ''os'', Def ''check_system'' [''loco_mujoco''] [],
      Def ''create_basic_robot'' [] [], Def ''test_basic_movement'' [] [],
      Def ''explain_what_happened'' [] [], Def ''troubleshooting_tips'' [] [],
      Def ''main'' [] [], If_name_main [Call ''main'']]"

text \<open>examples/g1_tutorials/lesson_1_2_simple_walk_test.py\<close>

definition lesson_1_2_simple_walk_test_py :: "stmt list" where
  "lesson_1_2_simple_walk_test_py =
     [Docstring, Import ''loco_mujoco.task_factories'', Def ''explain_motion_data'' [] [],
      Def ''compare_random_vs_recorded'' [] [], Def ''load_walking_data'' [] [],
      Def ''demonstrate_walking'' [] [], Def ''analyze_what_you_saw'' [] [],
      Def ''explain_imitation_learning'' [] [], Def ''next_steps'' [] [], Def ''main'' [] [],
      If_name_main [Call ''main'']]"

text \<open>examples/g1_tutorials/lesson_1_3_basic_datasets.py\<close>

definition lesson_1_3_basic_datasets_py :: "stmt list" where
  "lesson_1_3_basic_datasets_py =
     [Docstring, Import ''loco_mujoco.task_factories'', Import ''time'',
      Def ''introduce_motion_variety'' [] [], Def ''available_basic_motions'' [] [],
      Def ''demonstrate_motion'' [] [], Def ''compare_motion_characteristics'' [] [],
      Def ''motion_analysis_activity'' [] [], Def ''explain_dataset_concepts'' [] [],
      Def ''main'' [] [], If_name_main [Call ''main'']]"

text \<open>examples/g1_tutorials/lesson_1_4_lafan1_datasets.py\<close>

definition lesson_1_4_lafan1_datasets_py :: "stmt list" where
  "lesson_1_4_lafan1_datasets_py =
     [Docstring, Import ''loco_mujoco.task_factories'', Import ''time'',
      Def ''introduce_lafan1'' [] [], Def ''available_lafan1_motions'' [] [],
      Def ''demonstrate_lafan1_motion'' [] [], Def ''compare_basic_vs_advanced'' [] [],
      Def ''motion_transfer_challenges'' [] [], Def ''analysis_questions'' [] [],
      Def ''main'' [] [], If_name_main [Call ''main'']]"

text \<open>examples/g1_tutorials/lesson_1_5_interactive_control.py\<close>

definition lesson_1_5_interactive_control_py :: "stmt list" where
  "lesson_1_5_interactive_control_py =
     [Docstring, Import ''numpy'', Import ''loco_mujoco.task_factories'', Import ''time'',
      Import ''os'', Def ''set_background_color'' [] [], Def ''get_action_size'' [] [],
      Class ''InteractiveController'' [] [], Def ''explain_robot_control'' [] [],
      Def ''explain_control_challenges'' [] [],
      Def ''demonstrate_control_types'' [''loco_mujoco.task_factories''] [],
      Def ''interactive_control_session'' [] [Input ''Step {step_count} > '' True (Dispatched)],
      Def ''control_insights'' [] [], Def ''main'' [] [], If_name_main [Call ''main'']]"

text \<open>examples/g1_tutorials/lesson_1_6_motion_analysis.py\<close>

definition lesson_1_6_motion_analysis_py :: "stmt list" where
  "lesson_1_6_motion_analysis_py =
     [Docstring, Import ''numpy'', Import ''matplotlib.pyplot'',
      Import ''matplotlib.animation'', Import ''loco_mujoco.task_factories'', Import ''time'',
      Import ''threading'', Import ''collections'', Def ''get_action_size'' [] [],
      Def ''explain_motion_analysis'' [] [], Def ''motion_metrics_explained'' [] [],
      Def ''collect_live_motion_data'' [] [], Def ''collect_motion_data'' [] [],
      Def ''analyze_motion_data'' [] [], Def ''visualize_motion_data'' [] [],
      Def ''motion_comparison_demo'' [] [], Def ''analysis_best_practices'' [] [],
      Def ''main'' [] [], If_name_main [Call ''main'']]"

text \<open>examples/g1_tutorials/lesson_1_7_dataset_explorer.py\<close>

definition lesson_1_7_dataset_explorer_py :: "stmt list" where
  "lesson_1_7_dataset_explorer_py =
     [Docstring, Import ''loco_mujoco.task_factories'', Import ''time'',
      Def ''introduce_dataset_explorer'' [] [], Def ''catalog_default_datasets'' [] [],
      Def ''catalog_lafan1_datasets'' [] [], Def ''demonstrate_dataset_search'' [] [],
      Def ''demonstrate_motion_sampling'' [] [], Def ''build_custom_collection'' [] [],
      Def ''dataset_selection_guide'' [] [], Def ''exploration_best_practices'' [] [],
      Def ''main'' [] [], If_name_main [Call ''main'']]"

text \<open>examples/g1_tutorials/lesson_1_8_test_utilities.py\<close>

definition lesson_1_8_test_utilities_py :: "stmt list" where
  "lesson_1_8_test_utilities_py =
     [Docstring, Import ''time'', Import ''traceback'', Import ''numpy'',
      Import ''loco_mujoco.task_factories'', Def ''get_action_size'' [] [],
      Def ''explain_robot_testing'' [] [], Def ''testing_strategies'' [] [],
      Class ''RobotTester'' [] [], Def ''test_basic_robot_creation'' [] [],
      Def ''test_environment_reset'' [] [], Def ''test_environment_step'' [] [],
      Def ''test_dataset_loading'' [] [], Def ''test_rendering'' [] [],
      Def ''test_performance_basic'' [] [], Def ''test_stability'' [] [],
      Def ''run_full_test_suite'' [] [], Def ''debugging_guide'' [] [],
      Def ''testing_best_practices'' [] [], Def ''main'' [] [], If_name_main [Call ''main'']]"

text \<open>examples/g1_tutorials/lesson_1_9_slow_motion_viewer.py\<close>

definition lesson_1_9_slow_motion_viewer_py :: "stmt list" where
  "lesson_1_9_slow_motion_viewer_py =
     [Docstring, Import ''time'', Import ''loco_mujoco.task_factories'',
      Def ''explain_slow_motion_analysis'' [] [], Def ''slow_motion_techniques'' [] [],
      Class ''SlowMotionViewer'' [''numpy''] [Input '' Press Enter to continue...'' False
          (Discarded)],
      Def ''demonstrate_speed_comparison'' [] [], Def ''analyze_motion_details'' [] [],
      Def ''interactive_slow_motion_session'' [] [], Def ''slow_motion_applications'' [] [],
      Def ''slow_motion_best_practices'' [] [], Def ''main'' [] [],
      If_name_main [Call ''main'']]"

text \<open>examples/g1_tutorials/quick_background_demo.py\<close>

definition quick_background_demo_py :: "stmt list" where
  "quick_background_demo_py =
     [Docstring, Import ''numpy'', Import ''loco_mujoco.task_factories'', Import ''jax'',
      Import ''os'', Import ''time'', Def ''set_background'' [] [],
      Def ''main'' [] [Input '' Press Enter for next background...'' False (Discarded)],
      If_name_main [Call ''main'']]"

text \<open>examples/g1_tutorials/tools/generate_gamma_presentations.py\<close>

definition generate_gamma_presentations_py :: "stmt list" where
  "generate_gamma_presentations_py =
     [Docstring, Import ''requests'', Import ''time'', Import ''json'', Import ''pathlib'',
      Assign ''API_URL'', Assign ''API_KEY'', Def ''create_presentation'' [] [],
      Def ''get_lesson_data'' [] [], Def ''main'' [] [], If_name_main [Call ''main'']]"

text \<open>simple_tutorial.py\<close>

definition simple_tutorial_py :: "stmt list" where
  "simple_tutorial_py =
     [Docstring, Import ''numpy'', Import ''time'',
      Def ''main'' [''loco_mujoco'', ''traceback''] [], If_name_main [Call ''main'']]"

text \<open>test_g1_locomujoco.py\<close>

definition test_g1_locomujoco_py :: "stmt list" where
  "test_g1_locomujoco_py =
     [Docstring, Import ''numpy'', Import ''time'', Import ''loco_mujoco'',
      Def ''main'' [''traceback''] [], If_name_main [Call ''main'']]"

text \<open>test_locomujoco_examples.py\<close>

definition test_locomujoco_examples_py :: "stmt list" where
  "test_locomujoco_examples_py =
     [Docstring, Import ''numpy'', Import ''time'',
      Def ''test_basic_locomujoco'' [''loco_mujoco'', ''traceback''] [],
      Def ''test_alternative_simple_environment'' [''mujoco'', ''mujoco.viewer''] [],
      If_name_main [Print, Print, Assign_call ''success'' ''test_basic_locomujoco'',
          If_not_var ''success''
          [Assign_call ''success'' ''test_alternative_simple_environment''],
          If_var ''success'' [Print] [Print], Print]]"

text \<open>working_examples_test.py\<close>

definition working_examples_test_py :: "stmt list" where
  "working_examples_test_py =
     [Docstring, Import ''numpy'', Import ''time'',
      Def ''test_dataset_replay'' [''loco_mujoco.task_factories''] [],
      Def ''test_trajectory_generation'' [''loco_mujoco'', ''jax'', ''traceback''] [],
      Def ''test_basic_environment'' [''loco_mujoco'', ''jax'', ''jax.numpy''] [],
      Def ''main'' [] [], If_name_main [Call ''main'']]"

definition repository :: "(string \<times> stmt list) list" where
  "repository =
     [(''examples/g1_tutorials/archive/debug_test.py'', debug_test_py),
      (''examples/g1_tutorials/archive/g1_01_basic_datasets.py'', g1_01_basic_datasets_py),
      (''examples/g1_tutorials/archive/g1_01_record_datasets.py'', g1_01_record_datasets_py),
      (''examples/g1_tutorials/archive/g1_02_lafan1_datasets.py'', g1_02_lafan1_datasets_py),
      (''examples/g1_tutorials/archive/g1_03_interactive_control.py'',
          g1_03_interactive_control_py),
      (''examples/g1_tutorials/archive/g1_04_numerical_analysis.py'',
          g1_04_numerical_analysis_py),
      (''examples/g1_tutorials/archive/g1_04_simple_analysis.py'', g1_04_simple_analysis_py),
      (''examples/g1_tutorials/archive/g1_04_trajectory_generation.py'',
          g1_04_trajectory_generation_py),
      (''examples/g1_tutorials/archive/g1_05_visual_analysis.py'', g1_05_visual_analysis_py),
      (''examples/g1_tutorials/archive/g1_complete_dataset_recorder.py'',
          g1_complete_dataset_recorder_py),
      (''examples/g1_tutorials/archive/g1_comprehensive_dataset_explorer.py'',
          g1_comprehensive_dataset_explorer_py),
      (''examples/g1_tutorials/archive/g1_dance_recorder.py'', g1_dance_recorder_py),
      (''examples/g1_tutorials/archive/g1_dance_recorder_fixed.py'',
          g1_dance_recorder_fixed_py),
      (''examples/g1_tutorials/archive/g1_dance_video_recorder.py'',
          g1_dance_video_recorder_py),
      (''examples/g1_tutorials/archive/g1_dataset_explorer.py'', g1_dataset_explorer_py),
      (''examples/g1_tutorials/archive/g1_dataset_guide.py'', g1_dataset_guide_py),
      (''examples/g1_tutorials/archive/g1_extended_dataset_recorder.py'',
          g1_extended_dataset_recorder_py),
      (''examples/g1_tutorials/archive/g1_lafan1_demo.py'', g1_lafan1_demo_py),
      (''examples/g1_tutorials/archive/g1_quick_test.py'', g1_quick_test_py),
      (''examples/g1_tutorials/archive/g1_simple_recorder.py'', g1_simple_recorder_py),
      (''examples/g1_tutorials/archive/g1_simple_walk_test.py'', g1_simple_walk_test_py),
      (''examples/g1_tutorials/archive/g1_slow_motion_viewer.py'', g1_slow_motion_viewer_py),
      (''examples/g1_tutorials/archive/test_dance_recording.py'', test_dance_recording_py),
      (''examples/g1_tutorials/archive/test_dataset_availability.py'',
          test_dataset_availability_py),
      (''examples/g1_tutorials/archive/test_mujoco_viewer.py'', test_mujoco_viewer_py),
      (''examples/g1_tutorials/archive/tutorial_01_your_first_robot.py'',
          tutorial_01_your_first_robot_py),
      (''examples/g1_tutorials/archive/tutorial_02_interactive_control.py'',
          tutorial_02_interactive_control_py),
      (''examples/g1_tutorials/archive/tutorial_02_interactive_control_fixed.py'',
          tutorial_02_interactive_control_fixed_py),
      (''examples/g1_tutorials/archive/tutorial_02_interactive_simple.py'',
          tutorial_02_interactive_simple_py),
      (''examples/g1_tutorials/archive/tutorial_03_data_analysis.py'',
          tutorial_03_data_analysis_py),
      (''examples/g1_tutorials/archive/tutorial_04_reinforcement_learning.py'',
          tutorial_04_reinforcement_learning_py),
      (''examples/g1_tutorials/background_color_guide.py'', background_color_guide_py),
      (''examples/g1_tutorials/lesson_1_10_complete_summary.py'',
          lesson_1_10_complete_summary_py),
      (''examples/g1_tutorials/lesson_1_1_quick_test.py'', lesson_1_1_quick_test_py),
      (''examples/g1_tutorials/lesson_1_2_simple_walk_test.py'',
          lesson_1_2_simple_walk_test_py),
      (''examples/g1_tutorials/lesson_1_3_basic_datasets.py'', lesson_1_3_basic_datasets_py),
      (''examples/g1_tutorials/lesson_1_4_lafan1_datasets.py'', lesson_1_4_lafan1_datasets_py),
      (''examples/g1_tutorials/lesson_1_5_interactive_control.py'',
          lesson_1_5_interactive_control_py),
      (''examples/g1_tutorials/lesson_1_6_motion_analysis.py'', lesson_1_6_motion_analysis_py),
      (''examples/g1_tutorials/lesson_1_7_dataset_explorer.py'',
          lesson_1_7_dataset_explorer_py),
      (''examples/g1_tutorials/lesson_1_8_test_utilities.py'', lesson_1_8_test_utilities_py),
      (''examples/g1_tutorials/lesson_1_9_slow_motion_viewer.py'',
          lesson_1_9_slow_motion_viewer_py),
      (''examples/g1_tutorials/quick_background_demo.py'', quick_background_demo_py),
      (''examples/g1_tutorials/tools/generate_gamma_presentations.py'',
          generate_gamma_presentations_py),
      (''simple_tutorial.py'', simple_tutorial_py),
      (''test_g1_locomujoco.py'', test_g1_locomujoco_py),
      (''test_locomujoco_examples.py'', test_locomujoco_examples_py),
      (''working_examples_test.py'', working_examples_test_py)]"

text \<open>The functions and classes a file defines at top level.\<close>

fun defined :: "stmt list \<Rightarrow> string list" where
  "defined [] = []"
| "defined (Def f ms ins # ss) = f # defined ss"
| "defined (Class c ms ins # ss) = c # defined ss"
| "defined (s # ss) = defined ss"

text \<open>The functions of the file that a statement calls when it is executed, whatever
  branch is taken; the body of a \<open>def\<close> or \<open>class\<close> is not executed by the statement.\<close>

fun calls_of :: "stmt \<Rightarrow> string list" where
  "calls_of (Call f) = [f]"
| "calls_of (Assign_call x f) = [f]"
| "calls_of (If_var x a b) = concat (map calls_of a) @ concat (map calls_of b)"
| "calls_of (If_not_var x a) = concat (map calls_of a)"
| "calls_of (Try_except_ImportError a b) = concat (map calls_of a) @ concat (map calls_of b)"
| "calls_of (If_name_main a) = concat (map calls_of a)"
| "calls_of s = []"

text \<open>The calls a file makes at top level under \<^verbatim>\<open>if __name__ == "__main__"\<close>, and
  those it makes outside it (which run on import too).\<close>

fun guarded_calls :: "stmt list \<Rightarrow> string list" where
  "guarded_calls [] = []"
| "guarded_calls (If_name_main a # ss) = concat (map calls_of a) @ guarded_calls ss"
| "guarded_calls (s # ss) = guarded_calls ss"

fun unguarded_calls :: "stmt list \<Rightarrow> string list" where
  "unguarded_calls [] = []"
| "unguarded_calls (If_name_main a # ss) = unguarded_calls ss"
| "unguarded_calls (s # ss) = calls_of s @ unguarded_calls ss"

text \<open>Every module an import statement of the file names, at top level or in a body.\<close>

fun imports_of :: "stmt \<Rightarrow> string list" where
  "imports_of (Import m) = [m]"
| "imports_of (Def f ms ins) = ms"
| "imports_of (Class c ms ins) = ms"
| "imports_of (If_var x a b) = concat (map imports_of a) @ concat (map imports_of b)"
| "imports_of (If_not_var x a) = concat (map imports_of a)"
| "imports_of (Try_except_ImportError a b) =
     concat (map imports_of a) @ concat (map imports_of b)"
| "imports_of (If_name_main a) = concat (map imports_of a)"
| "imports_of s = []"

text \<open>Every call of \<open>input\<close> in the file. At top level no file has one, so they are
  those of the bodies.\<close>

fun inputs_of :: "stmt \<Rightarrow> input_call list" where
  "inputs_of (Def f ms ins) = ins"
| "inputs_of (Class c ms ins) = ins"
| "inputs_of (If_var x a b) = concat (map inputs_of a) @ concat (map inputs_of b)"
| "inputs_of (If_not_var x a) = concat (map inputs_of a)"
| "inputs_of (Try_except_ImportError a b) =
     concat (map inputs_of a) @ concat (map inputs_of b)"
| "inputs_of (If_name_main a) = concat (map inputs_of a)"
| "inputs_of s = []"

text \<open>
  The two properties of claim C1 for one file: the file defines \<open>main\<close>, calls it
  under the guard, and calls nothing else at top level; and the file does not read the
  command line, for which it would have to import \<open>sys\<close> (for \<open>sys.argv\<close>) or
  \<open>argparse\<close>.
\<close>

definition main_is_entry_point :: "stmt list \<Rightarrow> bool" where
  "main_is_entry_point file =
     (''main'' \<in> set (defined file) \<and> guarded_calls file = [''main''] \<and>
      unguarded_calls file = [])"

definition reads_no_arguments :: "stmt list \<Rightarrow> bool" where
  "reads_no_arguments file =
     (''sys'' \<notin> set (concat (map imports_of file)) \<and>
      ''argparse'' \<notin> set (concat (map imports_of file)))"

text \<open>
  \<^verbatim>\<open>s.strip()\<close> and \<^verbatim>\<open>s.lower()\<close> on ASCII text: blanks, tabs and line ends are taken from
  both ends; the letters A to Z become a to z.
\<close>

definition is_space :: "char \<Rightarrow> bool" where
  "is_space c = (c \<in> {CHR '' '', CHR 0x09, CHR 0x0A, CHR 0x0B, CHR 0x0C, CHR 0x0D})"

definition py_strip :: "string \<Rightarrow> string" where
  "py_strip s = rev (dropWhile is_space (rev (dropWhile is_space s)))"

definition py_lower :: "string \<Rightarrow> string" where
  "py_lower s =
     map (\<lambda>c. case map_of (zip ''ABCDEFGHIJKLMNOPQRSTUVWXYZ'' ''abcdefghijklmnopqrstuvwxyz'') c of
                None \<Rightarrow> c | Some l \<Rightarrow> l) s"

text \<open>
  Whether the line typed at a call of \<open>input\<close> makes the script go on, when the call
  feeds such a decision: \<^verbatim>\<open>if response in ['y', 'yes']: ...\<close> goes on for a member,
  \<^verbatim>\<open>if proceed != 'y': continue\<close> goes on for \<open>y\<close> only.
\<close>

fun goes_on :: "input_call \<Rightarrow> string \<Rightarrow> bool option" where
  "goes_on (Input prompt normalised (Member_of options)) typed =
     Some ((if normalised then py_lower (py_strip typed) else typed) \<in> set options)"
| "goes_on (Input prompt normalised (Equal_to s)) typed =
     Some ((if normalised then py_lower (py_strip typed) else typed) = s)"
| "goes_on (Input prompt normalised Discarded) typed = None"
| "goes_on (Input prompt normalised Dispatched) typed = None"

text \<open>
  A y/N confirmation as claim C2 words it: the accepted answers are \<open>y\<close> and \<open>yes\<close>,
  and the default (an empty line, or anything else such as \<open>n\<close>) is no. More widely, a
  yes/no answer: \<open>y\<close> goes on, an empty line and \<open>n\<close> do not.
\<close>

definition y_N_confirmation :: "input_call \<Rightarrow> bool" where
  "y_N_confirmation c =
     (goes_on c ''y'' = Some True \<and> goes_on c ''yes'' = Some True \<and>
      goes_on c [] = Some False \<and> goes_on c ''n'' = Some False)"

definition yes_no_answer :: "input_call \<Rightarrow> bool" where
  "yes_no_answer c =
     (goes_on c ''y'' = Some True \<and> goes_on c [] = Some False \<and> goes_on c ''n'' = Some False)"

text \<open>The files of the repository that have a call of \<open>input\<close> with a given property.\<close>

definition files_asking :: "(input_call \<Rightarrow> bool) \<Rightarrow> string list" where
  "files_asking P =
     map fst (filter (\<lambda>(path, file). list_ex P (concat (map inputs_of file))) repository)"


section \<open>What the properties of the scripts are stated with\<close>

text \<open>\<open>str(e)\<close> of what was raised; \<open>KeyboardInterrupt\<close> and \<open>SystemExit\<close> carry no
  text.\<close>

fun str_of :: "raised \<Rightarrow> string" where
  "str_of (Exception msg) = msg"
| "str_of KeyboardInterrupt = []"
| "str_of SystemExit = []"

text \<open>A world in which every call that raises, raises an instance of
  \<open>Exception\<close>; and a world in which \<open>time.sleep\<close> returns.\<close>

definition raises_only_Exception :: "world \<Rightarrow> bool" where
  "raises_only_Exception w = (\<forall>h e. w h = Some e \<longrightarrow> is_Exception e)"

definition sleep_returns :: "world \<Rightarrow> bool" where
  "sleep_returns w = (\<forall>h s. w (h @ [Sleep s]) = None)"

text \<open>An outcome that \<^verbatim>\<open>except Exception\<close> does not let through.\<close>

definition caught :: "raised + 'a \<Rightarrow> bool" where
  "caught x = (case x of Inl e \<Rightarrow> is_Exception e | Inr v \<Rightarrow> True)"

text \<open>What the successive calls of \<open>demonstrate_motion\<close> in the loop of
  lesson_1_3_basic_datasets.py return, as far as the loop gets.\<close>

fun demonstration_results :: "nat \<Rightarrow> (nat \<times> string) list \<Rightarrow> world \<Rightarrow> run \<Rightarrow> bool list" where
  "demonstration_results n [] w r = []"
| "demonstration_results n ((i, motion) # rest) w r =
     (case demonstrate_motion motion 12 w r of
        (r1, Inl e) \<Rightarrow> []
      | (r1, Inr ok) \<Rightarrow>
          ok # (if i < n then
                  (case ext_call (Sleep 2) w r1 of
                     (r2, Inl e) \<Rightarrow> []
                   | (r2, Inr u) \<Rightarrow> demonstration_results n rest w r2)
                else demonstration_results n rest w r1))"

text \<open>The dataset lists of the environments a run has asked for, in order.\<close>

fun datasets_made :: "call list \<Rightarrow> string list list" where
  "datasets_made [] = []"
| "datasets_made (Make names k # cs) = names # datasets_made cs"
| "datasets_made (c # cs) = datasets_made cs"

text \<open>Worlds for the examples: the first \<open>make\<close> of g1_01_basic_datasets.py fails
  with an \<open>Exception\<close>; the dataset \<open>run\<close> is missing; Ctrl+C arrives while a
  trajectory plays.\<close>

definition first_make_fails :: world where
  "first_make_fails h =
     (if h = [Make [''walk'', ''squat''] (Some 20)]
      then Some (Exception ''404 Not Found'') else None)"

definition run_is_missing :: world where
  "run_is_missing h =
     (if h \<noteq> [] \<and> last h = Make [''run''] (Some 20)
      then Some (Exception ''no such dataset'') else None)"

definition ctrl_c_while_playing :: world where
  "ctrl_c_while_playing h =
     (if h = [Make [''walk'', ''squat''] (Some 20), Action_space_shape, Observation_space_shape,
              Create_dataset, Make [''walk''] (Some 20), Play_trajectory 3 1000 True]
      then Some KeyboardInterrupt else None)"

definition ctrl_c_in_first_demo :: world where
  "ctrl_c_in_first_demo h =
     (if h = [Make [''walk''] (Some 20), Play_trajectory 1 360 True]
      then Some KeyboardInterrupt else None)"

section \<open>Properties\<close>

subsection \<open>get_action_size\<close>

text \<open>
  Claim C3. For every environment object, \<open>get_action_size\<close> returns
  \<open>env.action_size\<close> when that attribute exists; otherwise, when \<open>env.action_space\<close>
  exists and has a \<open>shape\<close>, it returns \<open>env.action_space.shape[0]\<close> (the evaluation of
  that index, which is the first entry of a non-empty shape); otherwise it returns 23.
  In particular an object with neither \<open>action_size\<close> nor \<open>action_space\<close> gives
  exactly 23.
\<close>

theorem get_action_size_cases:
  "(action_size e = Some a \<longrightarrow> get_action_size e = Inr a) \<and>
   (action_size e = None \<and> action_space e = Some sp \<and> shape sp = Some sh \<longrightarrow>
      get_action_size e = py_getitem sh 0 \<and>
      (\<forall>d ds. sh = d # ds \<longrightarrow> get_action_size e = Inr d)) \<and>
   (action_size e = None \<and> action_space e = Some sp \<and> shape sp = None \<longrightarrow>
      get_action_size e = Inr 23) \<and>
   (action_size e = None \<and> action_space e = None \<longrightarrow> get_action_size e = Inr 23)"
  by (simp add: get_action_size_def py_getitem_def)

theorem get_action_size_cases_witness:
  "get_action_size \<lparr>action_size = Some 29, action_space = None\<rparr> = Inr 29 \<and>
   get_action_size \<lparr>action_size = None, action_space = Some \<lparr>shape = Some [23, 4]\<rparr>\<rparr> = Inr 23 \<and>
   get_action_size \<lparr>action_size = None, action_space = Some \<lparr>shape = Some [7]\<rparr>\<rparr> = Inr 7 \<and>
   get_action_size \<lparr>action_size = None, action_space = Some \<lparr>shape = None\<rparr>\<rparr> = Inr 23 \<and>
   get_action_size \<lparr>action_size = None, action_space = None\<rparr> = Inr 23"
  using get_action_size_cases
          [of "\<lparr>action_size = Some 29, action_space = None\<rparr>" 29]
        get_action_size_cases
          [of "\<lparr>action_size = None, action_space = Some \<lparr>shape = Some [23, 4]\<rparr>\<rparr>"
              _ "\<lparr>shape = Some [23, 4]\<rparr>" "[23, 4]"]
        get_action_size_cases
          [of "\<lparr>action_size = None, action_space = Some \<lparr>shape = Some [7]\<rparr>\<rparr>"
              _ "\<lparr>shape = Some [7]\<rparr>" "[7]"]
        get_action_size_cases
          [of "\<lparr>action_size = None, action_space = Some \<lparr>shape = None\<rparr>\<rparr>"
              _ "\<lparr>shape = None\<rparr>"]
        get_action_size_cases [of "\<lparr>action_size = None, action_space = None\<rparr>"]
  by (simp add: py_getitem_def)

subsection \<open>InteractiveController\<close>

lemma list_all_update:
  "list_all P xs \<Longrightarrow> P v \<Longrightarrow> list_all P (xs[i := v])"
  by (induction xs arbitrary: i) (auto split: nat.splits)

lemma py_getitem_Inr:
  "py_getitem xs i = Inr x \<Longrightarrow> list_all P xs \<Longrightarrow> P x"
  by (auto simp: py_getitem_def Let_def list_all_length split: if_splits)

lemma joint_up_inv:
  assumes "action_in_range c" and "speed_in_range c"
  shows "action_in_range (fst (joint_up c i)) \<and> speed_in_range (fst (joint_up c i))"
proof (cases "py_getitem (current_action c) (int i)")
  case (Inl err)
  with assms show ?thesis by (simp add: joint_up_def)
next
  case (Inr x)
  have "- 1 \<le> x \<and> x \<le> 1"
    using py_getitem_Inr [OF Inr, of "\<lambda>x. - 1 \<le> x \<and> x \<le> 1"] assms(1)
    by (simp add: action_in_range_def)
  moreover have "0 \<le> control_speed c"
    using assms(2) by (simp add: speed_in_range_def)
  ultimately have "- 1 \<le> min 1 (x + control_speed c) \<and> min 1 (x + control_speed c) \<le> 1"
    by simp
  with assms Inr show ?thesis
    by (simp add: joint_up_def action_in_range_def speed_in_range_def list_all_update)
qed

lemma joint_down_inv:
  assumes "action_in_range c" and "speed_in_range c"
  shows "action_in_range (fst (joint_down c i)) \<and> speed_in_range (fst (joint_down c i))"
proof (cases "py_getitem (current_action c) (int i)")
  case (Inl err)
  with assms show ?thesis by (simp add: joint_down_def)
next
  case (Inr x)
  have "- 1 \<le> x \<and> x \<le> 1"
    using py_getitem_Inr [OF Inr, of "\<lambda>x. - 1 \<le> x \<and> x \<le> 1"] assms(1)
    by (simp add: action_in_range_def)
  moreover have "0 \<le> control_speed c"
    using assms(2) by (simp add: speed_in_range_def)
  ultimately have "- 1 \<le> max (- 1) (x - control_speed c) \<and> max (- 1) (x - control_speed c) \<le> 1"
    by simp
  with assms Inr show ?thesis
    by (simp add: joint_down_def action_in_range_def speed_in_range_def list_all_update)
qed

lemma zeros_in_range: "list_all (\<lambda>x. - 1 \<le> x \<and> x \<le> (1::real)) (replicate n 0)"
  by (induction n) simp_all

lemma update_action_inv:
  assumes "action_in_range c" and "speed_in_range c"
  shows "action_in_range (fst (update_action c key)) \<and>
         speed_in_range (fst (update_action c key))"
proof -
  have faster: "speed_in_range (c\<lparr>control_speed := min 0.5 (control_speed c + 0.02)\<rparr>)"
    using assms(2) by (auto simp: speed_in_range_def min_def)
  have slower: "speed_in_range (c\<lparr>control_speed := max 0.01 (control_speed c - 0.02)\<rparr>)"
    using assms(2) by (auto simp: speed_in_range_def max_def)
  have same_action: "action_in_range (c\<lparr>control_speed := s\<rparr>)" for s
    using assms(1) by (simp add: action_in_range_def)
  have reset: "action_in_range (c\<lparr>current_action := replicate (length (current_action c)) 0\<rparr>)"
    by (simp add: action_in_range_def zeros_in_range)
  have same_speed: "speed_in_range (c\<lparr>current_action := a\<rparr>)" for a
    using assms(2) by (simp add: speed_in_range_def)
  show ?thesis
    using assms joint_up_inv [OF assms] joint_down_inv [OF assms]
      faster slower same_action reset same_speed
    by (simp add: update_action_def)
qed

lemma update_actions_inv:
  "action_in_range c \<Longrightarrow> speed_in_range c \<Longrightarrow>
   action_in_range (update_actions c keys) \<and> speed_in_range (update_actions c keys)"
proof (induction keys arbitrary: c)
  case Nil
  then show ?case by simp
next
  case (Cons key keys)
  from update_action_inv [OF Cons.prems, of key] Cons.IH show ?case by simp
qed

lemma init_inv:
  assumes "InteractiveController_init e = Inr c"
  shows "action_in_range c \<and> speed_in_range c"
  using assms
  by (auto simp: InteractiveController_init_def np_zeros_def action_in_range_def
        speed_in_range_def zeros_in_range split: sum.splits if_splits)

text \<open>
  Claim C9. Starting from the controller that \<open>__init__\<close> builds (all-zeros action
  vector, speed 0.1), every sequence of \<open>update_action\<close> calls, with any keys in any
  order, leaves every entry of \<open>current_action\<close> in [-1.0, 1.0] and \<open>control_speed\<close> in
  [0.01, 0.5].
\<close>

theorem controller_bounds_invariant:
  assumes "InteractiveController_init e = Inr c"
  shows "action_in_range (update_actions c keys) \<and> speed_in_range (update_actions c keys)"
  using init_inv [OF assms] update_actions_inv by blast

theorem controller_bounds_invariant_witness:
  "InteractiveController_init \<lparr>action_size = Some 4, action_space = None\<rparr> =
     Inr \<lparr>ic_action_size = 4, current_action = [0, 0, 0, 0],
          control_mode = ''individual'', control_speed = 0.1\<rparr> \<and>
   action_in_range
     (update_actions
        \<lparr>ic_action_size = 4, current_action = [0, 0, 0, 0],
         control_mode = ''individual'', control_speed = 0.1\<rparr>
        [''+'', ''w'', ''t'', ''e'', ''zz'']) \<and>
   speed_in_range
     (update_actions
        \<lparr>ic_action_size = 4, current_action = [0, 0, 0, 0],
         control_mode = ''individual'', control_speed = 0.1\<rparr>
        [''+'', ''w'', ''t'', ''e'', ''zz''])"
proof -
  have init: "InteractiveController_init \<lparr>action_size = Some 4, action_space = None\<rparr> =
     Inr \<lparr>ic_action_size = 4, current_action = [0, 0, 0, 0],
          control_mode = ''individual'', control_speed = 0.1\<rparr>"
    by (simp add: InteractiveController_init_def get_action_size_def np_zeros_def
          numeral_eq_Suc)
  from controller_bounds_invariant [OF init, of "[''+'', ''w'', ''t'', ''e'', ''zz'']"] init
  show ?thesis by simp
qed

subsection \<open>SlowMotionViewer\<close>

lemma set_speed_keys:
  "speed_multipliers (fst (set_speed v n)) = speed_multipliers v \<and>
   base_delay (fst (set_speed v n)) = base_delay v"
  by (simp add: set_speed_def split: option.splits)

lemma set_speeds_keys:
  "speed_multipliers (set_speeds v ns) = speed_multipliers v \<and>
   base_delay (set_speeds v ns) = base_delay v"
  by (induction ns arbitrary: v) (simp_all add: set_speed_keys)

lemma init_keys:
  "map_of (speed_multipliers (SlowMotionViewer_init bd)) n = None \<longleftrightarrow>
   n \<notin> {''ultra_slow'', ''very_slow'', ''slow'', ''normal'', ''fast''}"
  by (simp add: SlowMotionViewer_init_def)

text \<open>
  Claim C10. \<open>set_speed\<close> is atomic on invalid input: on a viewer built by
  \<open>__init__\<close> and driven by any earlier \<open>set_speed\<close> calls, a speed name that is
  none of \<open>ultra_slow\<close>, \<open>very_slow\<close>, \<open>slow\<close>, \<open>normal\<close>, \<open>fast\<close> leaves
  \<open>current_speed\<close> (indeed the whole object) unchanged, so \<open>get_current_delay\<close>
  returns the same value before and after the call.
\<close>

theorem set_speed_unknown_unchanged:
  assumes "speed_name \<notin> {''ultra_slow'', ''very_slow'', ''slow'', ''normal'', ''fast''}"
    and "v = set_speeds (SlowMotionViewer_init bd) earlier"
  shows "fst (set_speed v speed_name) = v \<and>
         current_speed (fst (set_speed v speed_name)) = current_speed v \<and>
         get_current_delay (fst (set_speed v speed_name)) = get_current_delay v"
proof -
  have "map_of (speed_multipliers v) speed_name = None"
    using assms init_keys [of bd speed_name] set_speeds_keys [of "SlowMotionViewer_init bd" earlier]
    by simp
  then show ?thesis by (simp add: set_speed_def)
qed

theorem set_speed_unknown_unchanged_witness:
  "current_speed (fst (set_speed (set_speeds (SlowMotionViewer_init 0.033) [''slow'']) ''turbo''))
     = ''slow'' \<and>
   get_current_delay (fst (set_speed (set_speeds (SlowMotionViewer_init 0.033) [''slow'']) ''turbo''))
     = get_current_delay (set_speeds (SlowMotionViewer_init 0.033) [''slow'']) \<and>
   get_current_delay (set_speeds (SlowMotionViewer_init 0.033) [''slow'']) = Inr 0.066"
proof -
  have "''turbo'' \<notin> {''ultra_slow'', ''very_slow'', ''slow'', ''normal'', ''fast''}"
    by simp
  from set_speed_unknown_unchanged [OF this refl, of "0.033" "[''slow'']"]
  show ?thesis
    by (simp add: SlowMotionViewer_init_def set_speed_def get_current_delay_def)
qed

subsection \<open>Unpacking the result of step\<close>

lemma first_three:
  "3 \<le> length xs \<Longrightarrow> \<exists>rest. xs = xs ! 0 # xs ! 1 # xs ! 2 # rest"
  by (cases xs; cases "tl xs"; cases "tl (tl xs)") auto

lemma unpack_other_length:
  assumes "3 \<le> length xs" and "length xs \<noteq> 4" and "length xs \<noteq> 5"
  shows "unpack_step_result xs =
           Inr \<lparr>next_state = xs ! 0, reward = xs ! 1, terminated = xs ! 2,
                truncated = PyBool False, info = PyDict []\<rparr>"
proof -
  from first_three [OF assms(1)] obtain rest
    where xs: "xs = xs ! 0 # xs ! 1 # xs ! 2 # rest" by blast
  have "take 3 xs = [xs ! 0, xs ! 1, xs ! 2]"
    by (subst xs) (simp add: numeral_3_eq_3)
  with assms(2,3) show ?thesis
    by (simp add: unpack_step_result_def)
qed

lemma unpack_too_short:
  "length xs < 3 \<Longrightarrow> unpack_step_result xs = Inl ValueError"
  by (cases xs; cases "tl xs"; cases "tl (tl xs)") (auto simp: unpack_step_result_def)

text \<open>
  Claim C4, as amended. A tuple of length 5 is unpacked as (state, reward, terminated,
  truncated, info); a tuple of length 4 as (state, reward, terminated, info) with
  truncated set to False; a tuple of any other length that is at least 3 gives its first
  three entries as (state, reward, terminated) with truncated set to False and info set
  to the empty dictionary; a tuple of fewer than three entries raises ValueError and
  nothing is unpacked.
\<close>

theorem unpack_step_result_by_length:
  "(step_result = [s, r, te, tr, i] \<longrightarrow>
      unpack_step_result step_result =
        Inr \<lparr>next_state = s, reward = r, terminated = te, truncated = tr, info = i\<rparr>) \<and>
   (step_result = [s, r, te, i] \<longrightarrow>
      unpack_step_result step_result =
        Inr \<lparr>next_state = s, reward = r, terminated = te,
             truncated = PyBool False, info = i\<rparr>) \<and>
   (3 \<le> length step_result \<and> length step_result \<noteq> 4 \<and> length step_result \<noteq> 5 \<longrightarrow>
      unpack_step_result step_result =
        Inr \<lparr>next_state = step_result ! 0, reward = step_result ! 1,
             terminated = step_result ! 2, truncated = PyBool False, info = PyDict []\<rparr>) \<and>
   (length step_result < 3 \<longrightarrow> unpack_step_result step_result = Inl ValueError)"
  using unpack_other_length [of step_result] unpack_too_short [of step_result]
  by (simp add: unpack_step_result_def)

theorem unpack_step_result_by_length_witness:
  "unpack_step_result
     [PyArray [1, 2], PyFloat 0.5, PyBool False, PyBool True, PyDict [(''k'', ''v'')]] =
     Inr \<lparr>next_state = PyArray [1, 2], reward = PyFloat 0.5, terminated = PyBool False,
          truncated = PyBool True, info = PyDict [(''k'', ''v'')]\<rparr> \<and>
   unpack_step_result [PyArray [1, 2], PyFloat 0.5, PyBool True, PyDict [(''k'', ''v'')]] =
     Inr \<lparr>next_state = PyArray [1, 2], reward = PyFloat 0.5, terminated = PyBool True,
          truncated = PyBool False, info = PyDict [(''k'', ''v'')]\<rparr> \<and>
   unpack_step_result [PyArray [1, 2], PyFloat 0.5, PyBool True] =
     Inr \<lparr>next_state = PyArray [1, 2], reward = PyFloat 0.5, terminated = PyBool True,
          truncated = PyBool False, info = PyDict []\<rparr> \<and>
   unpack_step_result
     [PyArray [1, 2], PyFloat 0.5, PyBool True, PyBool False, PyDict [], PyFloat 7] =
     Inr \<lparr>next_state = PyArray [1, 2], reward = PyFloat 0.5, terminated = PyBool True,
          truncated = PyBool False, info = PyDict []\<rparr> \<and>
   unpack_step_result [PyArray [1, 2]] = Inl ValueError"
  using unpack_step_result_by_length
          [of "[PyArray [1, 2], PyFloat 0.5, PyBool False, PyBool True, PyDict [(''k'', ''v'')]]"
              "PyArray [1, 2]" "PyFloat 0.5" "PyBool False" "PyBool True"
              "PyDict [(''k'', ''v'')]"]
        unpack_step_result_by_length
          [of "[PyArray [1, 2], PyFloat 0.5, PyBool True, PyDict [(''k'', ''v'')]]"
              "PyArray [1, 2]" "PyFloat 0.5" "PyBool True" _ "PyDict [(''k'', ''v'')]"]
        unpack_step_result_by_length [of "[PyArray [1, 2], PyFloat 0.5, PyBool True]"]
        unpack_step_result_by_length
          [of "[PyArray [1, 2], PyFloat 0.5, PyBool True, PyBool False, PyDict [], PyFloat 7]"]
        unpack_step_result_by_length [of "[PyArray [1, 2]]"]
  by simp

text \<open>
  Claim C4 as first stated lets every length other than 5 and 4 give the first three
  entries. A tuple of two entries has length neither 5 nor 4, and its unpacking raises.
\<close>

theorem unpack_step_result_short_counterexample:
  "length [PyArray [1, 2], PyFloat 0.5] \<noteq> 5 \<and> length [PyArray [1, 2], PyFloat 0.5] \<noteq> 4 \<and>
   unpack_step_result [PyArray [1, 2], PyFloat 0.5] = Inl ValueError"
  by (simp add: unpack_step_result_def)

subsection \<open>set_background_color\<close>

lemma known_colors_in_unit_range:
  "rgb_in_unit_range ''0 0 0''" "rgb_in_unit_range ''0.1 0.1 0.2''"
  "rgb_in_unit_range ''0.2 0.2 0.2''" "rgb_in_unit_range ''1 1 1''"
  "rgb_in_unit_range ''0.2 0.3 0.4''"
  by (simp_all add: rgb_in_unit_range_def number_value_def digit_value_def)

text \<open>
  Claim C8. For every colour name, \<open>set_background_color\<close> writes to
  \<open>os.environ['MUJOCO_GL_BACKGROUND']\<close> an "R G B" string whose three components lie
  in the range 0 to 1: the string mapped to the name for the five known names, and the
  black string "0 0 0" for any other name.
\<close>

theorem set_background_color_writes_rgb:
  "\<exists>environ' bg_color.
     set_background_color environ color_name = Inr (environ', bg_color) \<and>
     environ' = environ(''MUJOCO_GL_BACKGROUND'' \<mapsto> bg_color) \<and>
     rgb_in_unit_range bg_color \<and>
     bg_color =
       (if color_name = ''black'' then ''0 0 0''
        else if color_name = ''dark_blue'' then ''0.1 0.1 0.2''
        else if color_name = ''dark_gray'' then ''0.2 0.2 0.2''
        else if color_name = ''white'' then ''1 1 1''
        else if color_name = ''default'' then ''0.2 0.3 0.4''
        else ''0 0 0'')"
  using known_colors_in_unit_range
  by (simp add: set_background_color_def dict_getitem_def dict_get_def colors_def Let_def)

theorem set_background_color_writes_rgb_witness:
  "set_background_color Map.empty ''dark_blue'' =
     Inr ([''MUJOCO_GL_BACKGROUND'' \<mapsto> ''0.1 0.1 0.2''], ''0.1 0.1 0.2'') \<and>
   set_background_color Map.empty ''neon'' =
     Inr ([''MUJOCO_GL_BACKGROUND'' \<mapsto> ''0 0 0''], ''0 0 0'') \<and>
   rgb_in_unit_range ''0.1 0.1 0.2'' \<and> rgb_in_unit_range ''0 0 0''"
  using set_background_color_writes_rgb [of Map.empty "''dark_blue''"]
        set_background_color_writes_rgb [of Map.empty "''neon''"]
  by auto

subsection \<open>Reporting a failed recording\<close>

text \<open>
  Claim C5, as amended. When the body of \<open>test_and_record_dataset\<close> raises an
  \<open>Exception\<close> whose text contains neither "404" nor "Entry Not Found", the error line
  shows exactly the first 50 characters of \<open>str(e)\<close>; when the body of
  \<open>record_dance_dataset\<close> raises an \<open>Exception\<close>, the line shows exactly the first 100
  characters of \<open>str(e)\<close>. A text longer than that is shown only through this prefix;
  a text of at most 50 (or 100) characters is shown whole.
\<close>

theorem failure_text_shown_as_prefix:
  "(\<not> str_contains ''404'' msg \<and> \<not> str_contains ''Entry Not Found'' msg \<longrightarrow>
      test_and_record_dataset (Raises (Exception msg)) =
        Inr ([Error_shown (take 50 msg)], False, None)) \<and>
   record_dance_dataset (Raises (Exception msg)) =
     Inr ([Recording_failed (take 100 msg)], None) \<and>
   length (take 50 msg) = min 50 (length msg) \<and>
   length (take 100 msg) = min 100 (length msg) \<and>
   (take 50 msg = msg \<longleftrightarrow> length msg \<le> 50) \<and>
   (take 100 msg = msg \<longleftrightarrow> length msg \<le> 100)"
  by (auto simp: test_and_record_dataset_def record_dance_dataset_def min_def
        dest: arg_cong [where f = length])

theorem failure_text_shown_as_prefix_witness:
  "test_and_record_dataset
     (Raises (Exception ''dataset walk_fast could not be fetched from the remote cache'')) =
     Inr ([Error_shown ''dataset walk_fast could not be fetched from the re''],
          False, None :: unit option) \<and>
   record_dance_dataset
     (Raises (Exception ''dataset walk_fast could not be fetched from the remote cache'')) =
     Inr ([Recording_failed ''dataset walk_fast could not be fetched from the remote cache''],
          None)"
proof -
  have "\<not> str_contains ''404''
          ''dataset walk_fast could not be fetched from the remote cache'' \<and>
        \<not> str_contains ''Entry Not Found''
          ''dataset walk_fast could not be fetched from the remote cache''"
    by simp
  with failure_text_shown_as_prefix
         [of "''dataset walk_fast could not be fetched from the remote cache''"]
  show ?thesis by simp
qed

text \<open>
  Claim C5 as first stated has the full message never printed in these branches. The
  message "boom" contains neither "404" nor "Entry Not Found" and is shown whole by
  both handlers.
\<close>

theorem failure_text_whole_counterexample:
  "\<not> str_contains ''404'' ''boom'' \<and> \<not> str_contains ''Entry Not Found'' ''boom'' \<and>
   test_and_record_dataset (Raises (Exception ''boom'')) =
     Inr ([Error_shown ''boom''], False, None :: unit option) \<and>
   record_dance_dataset (Raises (Exception ''boom'')) =
     Inr ([Recording_failed ''boom''], None)"
  by (simp add: test_and_record_dataset_def record_dance_dataset_def)

subsection \<open>Scripts as sequences of calls\<close>

lemma datasets_made_append: "datasets_made (xs @ ys) = datasets_made xs @ datasets_made ys"
  by (induction xs rule: datasets_made.induct) simp_all

lemma ext_call_caught: "raises_only_Exception w \<Longrightarrow> caught (snd (ext_call c w r))"
  by (auto simp: ext_call_def caught_def raises_only_Exception_def Let_def split: option.splits)

lemma say_caught: "caught (snd (say l w r))"
  by (simp add: say_def caught_def)

lemma in_order_caught:
  "(\<And>p r. p \<in> set ps \<Longrightarrow> caught (snd (p w r))) \<Longrightarrow> caught (snd (in_order ps w r))"
proof (induction ps arbitrary: r)
  case Nil
  then show ?case by (simp add: caught_def)
next
  case (Cons p ps)
  obtain r' res where step: "p w r = (r', res)" by (cases "p w r")
  have first: "caught (snd (p w r))" using Cons.prems by simp
  have rest: "caught (snd (in_order ps w r'))"
    using Cons.IH Cons.prems by simp
  show ?case
  proof (cases res)
    case (Inl e)
    with step first show ?thesis by simp
  next
    case (Inr u)
    with step rest show ?thesis by simp
  qed
qed

lemma try_except_returns:
  assumes "caught (snd (body w r))"
    and "\<And>msg r'. \<exists>x. snd (handler msg w r') = Inr x"
  shows "\<exists>x. snd (try_except_Exception body handler w r) = Inr x"
proof (cases "body w r")
  case (Pair r' res)
  show ?thesis
  proof (cases res)
    case (Inl e)
    with assms(1) Pair obtain msg where "e = Exception msg"
      by (cases e) (auto simp: caught_def)
    with Pair Inl assms(2) [of msg r'] show ?thesis
      by (simp add: try_except_Exception_def)
  next
    case (Inr x)
    with Pair show ?thesis by (simp add: try_except_Exception_def)
  qed
qed

subsection \<open>main of g1_01_basic_datasets.py\<close>

lemma g1_01_demo_caught:
  assumes "raises_only_Exception w"
  shows "caught (snd (g1_01_demo p w r))"
proof -
  obtain i dataset_name where p: "p = (i, dataset_name)" by (cases p)
  show ?thesis
    unfolding p g1_01_demo_def prod.case
    by (rule in_order_caught) (auto simp: ext_call_caught [OF assms])
qed

lemma g1_01_try_body_caught:
  assumes "raises_only_Exception w"
  shows "caught (snd (g1_01_try_body w r))"
  unfolding g1_01_try_body_def
proof (rule in_order_caught)
  fix p r
  assume "p \<in> set ([ext_call (Make [''walk'', ''squat''] (Some 20)), ext_call Action_space_shape,
         ext_call Observation_space_shape, ext_call Create_dataset] @
        map g1_01_demo (enumerate 0 datasets_to_demo))"
  then consider c where "p = ext_call c" | q where "p = g1_01_demo q" by auto
  then show "caught (snd (p w r))"
    using ext_call_caught [OF assms] g1_01_demo_caught [OF assms] by cases simp_all
qed

lemma g1_01_fallback_returns:
  assumes "raises_only_Exception w"
  shows "snd (g1_01_fallback w r) = Inr ()"
proof -
  have "caught (snd (in_order [ext_call (Make [''walk''] None),
           ext_call (Play_trajectory 2 500 True), say Fallback_successful] w r))"
  proof (rule in_order_caught)
    fix p r
    assume "p \<in> set [ext_call (Make [''walk''] None),
           ext_call (Play_trajectory 2 500 True), say Fallback_successful]"
    then consider c where "p = ext_call c" | l where "p = say l" by auto
    then show "caught (snd (p w r))"
      using ext_call_caught [OF assms] say_caught by cases simp_all
  qed
  moreover have "\<exists>x. snd (say (Fallback_failed msg) w r') = Inr x" for msg r'
    by (simp add: say_def)
  ultimately have "\<exists>x. snd (g1_01_fallback w r) = Inr x"
    unfolding g1_01_fallback_def by (rule try_except_returns)
  then show ?thesis by simp
qed

lemma g1_01_main_returns:
  assumes "raises_only_Exception w"
  shows "snd (g1_01_main w r) = Inr ()"
proof -
  have "\<exists>x. snd (in_order [say (Error_line msg), g1_01_fallback] w r') = Inr x" for msg r'
    using g1_01_fallback_returns [OF assms, of "r'\<lparr>printed := printed r' @ [Error_line msg]\<rparr>"]
    by (cases "g1_01_fallback w (r'\<lparr>printed := printed r' @ [Error_line msg]\<rparr>)")
       (simp add: say_def)
  with g1_01_try_body_caught [OF assms]
  have "\<exists>x. snd (g1_01_main w r) = Inr x"
    unfolding g1_01_main_def by (rule try_except_returns)
  then show ?thesis by simp
qed

lemma g1_01_fallback_run:
  "g1_01_fallback w r1 =
     (let made = calls r1 @ [Make [''walk''] None];
          played = made @ [Play_trajectory 2 500 True]
      in case w made of
           Some e \<Rightarrow> (case e of Exception m \<Rightarrow> (r1\<lparr>calls := made, printed := printed r1 @ [Fallback_failed m]\<rparr>, Inr ())
                       | _ \<Rightarrow> (r1\<lparr>calls := made\<rparr>, Inl e))
         | None \<Rightarrow>
            (case w played of
               Some e \<Rightarrow> (case e of Exception m \<Rightarrow> (r1\<lparr>calls := played, printed := printed r1 @ [Fallback_failed m]\<rparr>, Inr ())
                       | _ \<Rightarrow> (r1\<lparr>calls := played\<rparr>, Inl e))
             | None \<Rightarrow> (r1\<lparr>calls := played, printed := printed r1 @ [Fallback_successful]\<rparr>, Inr ())))"
  by (simp add: g1_01_fallback_def try_except_Exception_def ext_call_def say_def Let_def
      split: option.splits raised.splits)


lemma g1_01_handler_run:
  "in_order [say (Error_line msg), g1_01_fallback] w r1 =
     g1_01_fallback w (r1\<lparr>printed := printed r1 @ [Error_line msg]\<rparr>)"
  by (cases "g1_01_fallback w (r1\<lparr>printed := printed r1 @ [Error_line msg]\<rparr>)")
     (auto simp: say_def split: sum.splits)

lemma g1_01_main_after_failure:
  assumes "snd (g1_01_try_body w r) = Inl (Exception msg)"
  shows "g1_01_main w r =
           g1_01_fallback w
             ((fst (g1_01_try_body w r))\<lparr>printed := printed (fst (g1_01_try_body w r)) @ [Error_line msg]\<rparr>)"
  using assms
  by (cases "g1_01_try_body w r")
     (simp add: g1_01_main_def try_except_Exception_def g1_01_handler_run del: in_order.simps)

text \<open>
  Claim C6, as amended. In g1_01_basic_datasets, as long as what the library raises
  derives from \<open>Exception\<close>, \<open>main()\<close> returns normally. Whenever the
  multi-dataset part (creating the environment for ["walk", "squat"], reading its
  spaces, creating the dataset, the two demonstrations) raises such an exception,
  \<open>main()\<close> reports it, then creates an environment with the single dataset ["walk"]
  and no \<open>n_substeps\<close>, and plays it for 2 episodes of 500 steps; an exception of
  the fallback is reported as "Fallback also failed" and goes no further.
\<close>

theorem g1_01_main_falls_back:
  assumes "raises_only_Exception w"
  shows "snd (g1_01_main w r) = Inr () \<and>
    (\<forall>msg. snd (g1_01_try_body w r) = Inl (Exception msg) \<longrightarrow>
       (let r1 = fst (g1_01_try_body w r);
            made = calls r1 @ [Make [''walk''] None];
            played = made @ [Play_trajectory 2 500 True]
        in calls (fst (g1_01_main w r)) = (if w made = None then played else made) \<and>
           printed (fst (g1_01_main w r)) =
             printed r1 @
             [Error_line msg,
              (case w made of
                 Some e2 \<Rightarrow> Fallback_failed (str_of e2)
               | None \<Rightarrow>
                   (case w played of
                      Some e2 \<Rightarrow> Fallback_failed (str_of e2)
                    | None \<Rightarrow> Fallback_successful))]))"
proof (intro conjI allI impI)
  show "snd (g1_01_main w r) = Inr ()" by (rule g1_01_main_returns [OF assms])
next
  fix msg
  assume failed: "snd (g1_01_try_body w r) = Inl (Exception msg)"
  have exc: "w h = Some e \<Longrightarrow> \<exists>m. e = Exception m" for h e
    using assms [unfolded raises_only_Exception_def, rule_format, of h e]
    by (cases e) simp_all
  show "let r1 = fst (g1_01_try_body w r);
            made = calls r1 @ [Make [''walk''] None];
            played = made @ [Play_trajectory 2 500 True]
        in calls (fst (g1_01_main w r)) = (if w made = None then played else made) \<and>
           printed (fst (g1_01_main w r)) =
             printed r1 @
             [Error_line msg,
              (case w made of
                 Some e2 \<Rightarrow> Fallback_failed (str_of e2)
               | None \<Rightarrow>
                   (case w played of
                      Some e2 \<Rightarrow> Fallback_failed (str_of e2)
                    | None \<Rightarrow> Fallback_successful))]"
    unfolding g1_01_main_after_failure [OF failed] g1_01_fallback_run
    by (auto simp: Let_def split: option.splits raised.splits dest: exc)
qed

theorem g1_01_main_falls_back_witness:
  "raises_only_Exception first_make_fails \<and>
   g1_01_main first_make_fails \<lparr>calls = [], printed = []\<rparr> =
     (\<lparr>calls = [Make [''walk'', ''squat''] (Some 20), Make [''walk''] None,
               Play_trajectory 2 500 True],
       printed = [Error_line ''404 Not Found'', Fallback_successful]\<rparr>,
      Inr ())"
proof -
  have h: "raises_only_Exception first_make_fails"
    by (simp add: raises_only_Exception_def first_make_fails_def)
  from g1_01_main_falls_back [OF h, of "\<lparr>calls = [], printed = []\<rparr>"] h
  show ?thesis
    by (simp add: g1_01_main_def g1_01_try_body_def g1_01_fallback_def
          try_except_Exception_def ext_call_def say_def first_make_fails_def)
qed

text \<open>
  Claim C6 as first stated has \<open>main()\<close> catch every exception and never propagate
  one. Ctrl+C while the first trajectory plays raises \<open>KeyboardInterrupt\<close>, which
  \<^verbatim>\<open>except Exception\<close> lets through: \<open>main()\<close> ends with it, without a fallback.
\<close>

theorem g1_01_main_interrupt_counterexample:
  "g1_01_main ctrl_c_while_playing \<lparr>calls = [], printed = []\<rparr> =
     (\<lparr>calls = [Make [''walk'', ''squat''] (Some 20), Action_space_shape,
               Observation_space_shape, Create_dataset, Make [''walk''] (Some 20),
               Play_trajectory 3 1000 True],
       printed = []\<rparr>,
      Inl KeyboardInterrupt)"
  by (simp add: g1_01_main_def g1_01_try_body_def try_except_Exception_def ext_call_def
        ctrl_c_while_playing_def datasets_to_demo_def g1_01_demo_def enumerate_eq_zip)

subsection \<open>demonstrate_motion and main of lesson_1_3_basic_datasets.py\<close>

lemma demonstrate_motion_run:
  "demonstrate_motion m d w r =
     (let made = calls r @ [Make [m] (Some 20)];
          played = made @ [Play_trajectory 1 (d * 30) True]
      in case w made of
           Some e \<Rightarrow>
             (case e of
                Exception msg \<Rightarrow>
                  (r\<lparr>calls := made, printed := printed r @ [Failed_to_demonstrate m msg]\<rparr>,
                   Inr False)
              | KeyboardInterrupt \<Rightarrow> (r\<lparr>calls := made\<rparr>, Inl e)
              | SystemExit \<Rightarrow> (r\<lparr>calls := made\<rparr>, Inl e))
         | None \<Rightarrow>
             (case w played of
                Some e \<Rightarrow>
                  (case e of
                     Exception msg \<Rightarrow>
                       (r\<lparr>calls := played, printed := printed r @ [Failed_to_demonstrate m msg]\<rparr>,
                        Inr False)
                   | KeyboardInterrupt \<Rightarrow> (r\<lparr>calls := played\<rparr>, Inl e)
                   | SystemExit \<Rightarrow> (r\<lparr>calls := played\<rparr>, Inl e))
              | None \<Rightarrow>
                  (r\<lparr>calls := played, printed := printed r @ [Demonstration_complete m]\<rparr>,
                   Inr True)))"
  by (simp add: demonstrate_motion_def try_except_Exception_def ext_call_def say_def Let_def
      split: option.splits raised.splits)

lemma demonstrate_motion_returns:
  assumes "raises_only_Exception w"
  shows "\<exists>r1. demonstrate_motion m d w r =
            (r1, Inr (w (calls r @ [Make [m] (Some 20)]) = None \<and>
                      w (calls r @ [Make [m] (Some 20), Play_trajectory 1 (d * 30) True]) = None)) \<and>
          datasets_made (calls r1) = datasets_made (calls r) @ [[m]]"
proof -
  have exc: "w h = Some e \<Longrightarrow> \<exists>msg. e = Exception msg" for h e
    using assms [unfolded raises_only_Exception_def, rule_format, of h e]
    by (cases e) simp_all
  show ?thesis
    unfolding demonstrate_motion_run
    by (auto simp: Let_def datasets_made_append split: option.splits raised.splits dest: exc)
qed

lemma sleep_run:
  "sleep_returns w \<Longrightarrow> ext_call (Sleep s) w r = (r\<lparr>calls := calls r @ [Sleep s]\<rparr>, Inr ())"
  by (simp add: ext_call_def sleep_returns_def)

lemma demonstrations_run:
  assumes "raises_only_Exception w" and "sleep_returns w"
  shows "\<exists>r'. demonstrations n ps k w r =
            (r', Inr (k + length (filter (\<lambda>ok. ok) (demonstration_results n ps w r)))) \<and>
          length (demonstration_results n ps w r) = length ps \<and>
          datasets_made (calls r') = datasets_made (calls r) @ map (\<lambda>p. [snd p]) ps"
proof (induction ps arbitrary: k r)
  case Nil
  show ?case by simp
next
  case (Cons p ps)
  obtain i motion where p: "p = (i, motion)" by (cases p)
  from demonstrate_motion_returns [OF assms(1), of motion 12 r] obtain r1 ok
    where demo: "demonstrate_motion motion 12 w r = (r1, Inr ok)"
      and made: "datasets_made (calls r1) = datasets_made (calls r) @ [[motion]]"
    by blast
  define k' where "k' = (if ok then k + 1 else k)"
  define r2 where "r2 = (if i < n then r1\<lparr>calls := calls r1 @ [Sleep 2]\<rparr> else r1)"
  have made2: "datasets_made (calls r2) = datasets_made (calls r) @ [[motion]]"
    using made by (simp add: r2_def datasets_made_append)
  have loop: "demonstrations n (p # ps) k w r = demonstrations n ps k' w r2"
    using demo sleep_run [OF assms(2), of 2 r1] by (simp add: p k'_def r2_def)
  have res: "demonstration_results n (p # ps) w r = ok # demonstration_results n ps w r2"
    using demo sleep_run [OF assms(2), of 2 r1] by (simp add: p r2_def)
  from Cons.IH [of k' r2] obtain r' where
    "demonstrations n ps k' w r2 =
       (r', Inr (k' + length (filter (\<lambda>ok. ok) (demonstration_results n ps w r2))))"
    "length (demonstration_results n ps w r2) = length ps"
    "datasets_made (calls r') = datasets_made (calls r2) @ map (\<lambda>p. [snd p]) ps"
    by blast
  then show ?case
    unfolding loop res using made2 by (simp add: k'_def p)
qed

text \<open>
  Claim C7, as amended. In lesson_1_3_basic_datasets, as long as what the library
  raises derives from \<open>Exception\<close> and \<open>time.sleep\<close> returns, a failure while
  demonstrating one motion does not end the loop: \<open>demonstrate_motion\<close> returns
  False when creating the environment or playing the trajectory raises and True when
  both return; \<open>main()\<close> asks for the four motions "walk", "run", "squat", "balance"
  in this order whatever fails, returns normally, and the count it reports last,
  out of 4, is the number of motions for which \<open>demonstrate_motion\<close> returned True.
\<close>

theorem lesson_1_3_all_motions:
  assumes "raises_only_Exception w" and "sleep_returns w"
  shows "snd (demonstrate_motion motion duration w r) =
           Inr (w (calls r @ [Make [motion] (Some 20)]) = None \<and>
                w (calls r @ [Make [motion] (Some 20),
                              Play_trajectory 1 (duration * 30) True]) = None) \<and>
         snd (lesson_1_3_main w r) = Inr () \<and>
         (let results = demonstration_results 4 (enumerate 1 available_basic_motions) w r;
              r' = fst (lesson_1_3_main w r)
          in length results = 4 \<and>
             datasets_made (calls r') =
               datasets_made (calls r) @ [[''walk''], [''run''], [''squat''], [''balance'']] \<and>
             last (printed r') = Successfully_demonstrated (length (filter (\<lambda>ok. ok) results)) 4)"
proof -
  from demonstrate_motion_returns [OF assms(1), of motion duration r]
  have one: "snd (demonstrate_motion motion duration w r) =
           Inr (w (calls r @ [Make [motion] (Some 20)]) = None \<and>
                w (calls r @ [Make [motion] (Some 20),
                              Play_trajectory 1 (duration * 30) True]) = None)"
    by auto
  have len: "length available_basic_motions = 4"
    by (simp add: available_basic_motions_def)
  from demonstrations_run [OF assms, of 4 "enumerate 1 available_basic_motions" 0 r]
  obtain r' where
    run: "demonstrations 4 (enumerate 1 available_basic_motions) 0 w r =
       (r', Inr (length (filter (\<lambda>ok. ok)
          (demonstration_results 4 (enumerate 1 available_basic_motions) w r))))"
    and n: "length (demonstration_results 4 (enumerate 1 available_basic_motions) w r) = 4"
    and made: "datasets_made (calls r') =
       datasets_made (calls r) @ map (\<lambda>p. [snd p]) (enumerate 1 available_basic_motions)"
    by (auto simp: len)
  have names: "map (\<lambda>p. [snd p]) (enumerate 1 available_basic_motions) =
      [[''walk''], [''run''], [''squat''], [''balance'']]"
    by (simp add: available_basic_motions_def enumerate_eq_zip upt_rec)
  have main: "lesson_1_3_main w r =
      (r'\<lparr>printed := printed r' @
          [Successfully_demonstrated
             (length (filter (\<lambda>ok. ok)
                (demonstration_results 4 (enumerate 1 available_basic_motions) w r))) 4]\<rparr>,
       Inr ())"
    using run by (simp add: lesson_1_3_main_def Let_def len say_def)
  show ?thesis
    using one n made names by (simp add: main Let_def)
qed

theorem lesson_1_3_all_motions_witness:
  "raises_only_Exception run_is_missing \<and> sleep_returns run_is_missing \<and>
   lesson_1_3_main run_is_missing \<lparr>calls = [], printed = []\<rparr> =
     (\<lparr>calls = [Make [''walk''] (Some 20), Play_trajectory 1 360 True, Sleep 2,
               Make [''run''] (Some 20), Sleep 2,
               Make [''squat''] (Some 20), Play_trajectory 1 360 True, Sleep 2,
               Make [''balance''] (Some 20), Play_trajectory 1 360 True],
       printed = [Demonstration_complete ''walk'',
                  Failed_to_demonstrate ''run'' ''no such dataset'',
                  Demonstration_complete ''squat'', Demonstration_complete ''balance'',
                  Successfully_demonstrated 3 4]\<rparr>,
      Inr ())"
proof -
  have h1: "raises_only_Exception run_is_missing"
    by (simp add: raises_only_Exception_def run_is_missing_def)
  have h2: "sleep_returns run_is_missing"
    by (simp add: sleep_returns_def run_is_missing_def)
  from lesson_1_3_all_motions [OF h1 h2, of "''walk''" 12 "\<lparr>calls = [], printed = []\<rparr>"] h1 h2
  show ?thesis
    by (simp add: lesson_1_3_main_def available_basic_motions_def enumerate_eq_zip upt_rec
          demonstrate_motion_run run_is_missing_def ext_call_def say_def Let_def)
qed

text \<open>
  Claim C7 as first stated has \<open>demonstrate_motion\<close> catch every exception and the
  loop go over all four motions whatever happens. Ctrl+C while the first motion plays
  raises \<open>KeyboardInterrupt\<close>, which leaves \<open>demonstrate_motion\<close> and \<open>main()\<close>: the
  motions "run", "squat" and "balance" are never asked for and no count is reported.
\<close>

theorem lesson_1_3_interrupt_counterexample:
  "lesson_1_3_main ctrl_c_in_first_demo \<lparr>calls = [], printed = []\<rparr> =
     (\<lparr>calls = [Make [''walk''] (Some 20), Play_trajectory 1 360 True], printed = []\<rparr>,
      Inl KeyboardInterrupt)"
  by (simp add: lesson_1_3_main_def available_basic_motions_def enumerate_eq_zip upt_rec
        demonstrate_motion_run ctrl_c_in_first_demo_def Let_def)

subsection \<open>The scripts as files\<close>

text \<open>
  Claim C1, as amended. Each of the 48 source files is a standalone entry point: at top
  level it calls functions only under \<^verbatim>\<open>if __name__ == "__main__"\<close>, it calls at least
  one there, each of them defined in the file, and it does not read the command line (it
  imports neither \<open>sys\<close> nor \<open>argparse\<close>). In 45 files the guarded call is
  \<open>main()\<close>. The three others define no \<open>main\<close>: debug_test.py calls
  \<open>test_basic_rl_environment()\<close>, test_dance_recording.py calls
  \<open>test_single_dance()\<close>, and test_locomujoco_examples.py calls
  \<open>test_basic_locomujoco()\<close> and, when that fails,
  \<open>test_alternative_simple_environment()\<close>.
\<close>

theorem scripts_are_guarded_entry_points:
  "length repository = 48 \<and>
   list_all
     (\<lambda>(path, file).
        unguarded_calls file = [] \<and> guarded_calls file \<noteq> [] \<and>
        list_all (\<lambda>f. f \<in> set (defined file)) (guarded_calls file) \<and>
        reads_no_arguments file)
     repository \<and>
   map (\<lambda>(path, file). (path, guarded_calls file))
     (filter (\<lambda>(path, file). \<not> main_is_entry_point file) repository) =
     [(''examples/g1_tutorials/archive/debug_test.py'', [''test_basic_rl_environment'']),
      (''examples/g1_tutorials/archive/test_dance_recording.py'', [''test_single_dance'']),
      (''test_locomujoco_examples.py'',
       [''test_basic_locomujoco'', ''test_alternative_simple_environment''])]"
  by code_simp

text \<open>
  Claim C1 as first stated has every file define \<open>main()\<close> and call it under the
  guard. debug_test.py is a file of the repository that defines no \<open>main\<close>; what it
  calls under the guard is \<open>test_basic_rl_environment\<close>.
\<close>

theorem debug_test_has_no_main_counterexample:
  "(''examples/g1_tutorials/archive/debug_test.py'', debug_test_py) \<in> set repository \<and>
   ''main'' \<notin> set (defined debug_test_py) \<and>
   guarded_calls debug_test_py = [''test_basic_rl_environment''] \<and>
   \<not> main_is_entry_point debug_test_py"
  by code_simp

text \<open>
  Claim C2, as amended. Two scripts ask for a y/N confirmation whose accepted answers
  are \<open>y\<close> and \<open>yes\<close> (after \<open>strip\<close> and \<open>lower\<close>) and whose default is no:
  g1_comprehensive_dataset_explorer.py and g1_lafan1_demo.py. A third,
  g1_slow_motion_viewer.py, asks "Continue? (y/n)" and goes on for \<open>y\<close> only. No
  other script reads a yes/no answer: the calls of \<open>input\<close> in the three remaining
  files that have one wait for Enter or read a command.
\<close>

theorem y_N_confirmations:
  "files_asking y_N_confirmation =
     [''examples/g1_tutorials/archive/g1_comprehensive_dataset_explorer.py'',
      ''examples/g1_tutorials/archive/g1_lafan1_demo.py''] \<and>
   files_asking yes_no_answer =
     [''examples/g1_tutorials/archive/g1_comprehensive_dataset_explorer.py'',
      ''examples/g1_tutorials/archive/g1_lafan1_demo.py'',
      ''examples/g1_tutorials/archive/g1_slow_motion_viewer.py''] \<and>
   files_asking (\<lambda>c. True) =
     [''examples/g1_tutorials/archive/g1_comprehensive_dataset_explorer.py'',
      ''examples/g1_tutorials/archive/g1_lafan1_demo.py'',
      ''examples/g1_tutorials/archive/g1_slow_motion_viewer.py'',
      ''examples/g1_tutorials/lesson_1_5_interactive_control.py'',
      ''examples/g1_tutorials/lesson_1_9_slow_motion_viewer.py'',
      ''examples/g1_tutorials/quick_background_demo.py'']"
  by code_simp

text \<open>
  Claim C2 as first stated has g1_comprehensive_dataset_explorer.py as the only script
  with a y/N confirmation. g1_lafan1_demo.py is another one.
\<close>

theorem second_y_N_confirmation_counterexample:
  "''examples/g1_tutorials/archive/g1_lafan1_demo.py'' \<in> set (files_asking y_N_confirmation) \<and>
   ''examples/g1_tutorials/archive/g1_lafan1_demo.py'' \<noteq>
     ''examples/g1_tutorials/archive/g1_comprehensive_dataset_explorer.py''"
  by code_simp


end
